theory Spec2Isabelle
  imports Complex_Main
begin

section \<open>vtk3DCursorRepresentation: a shallow embedding\<close>

text \<open>
  The theory follows \<^verbatim>\<open>Interaction/Widgets/vtk3DCursorRepresentation.cxx\<close>.
  Objects live in a store and are referred to by address, because the cursor actor, the
  custom cursor and the actors of the renderer may be the same object.  Collaborating
  classes (picker, actor, mapper, widget base class) are not part of the file; whatever
  the file only calls is a field of the record \<open>collaborators\<close> and every theorem holds
  for all of its values.
\<close>

subsection \<open>Doubles\<close>

text \<open>
  A C++ \<^verbatim>\<open>double\<close> is modelled with its special values written out: not-a-number and
  the two infinities are constructors of their own, a finite value is a real.  Finite
  arithmetic is exact (no rounding, no overflow to infinity) and the two signed zeros are
  one value, \<open>Fin 0\<close>, taken as positive where the sign of a zero matters.  The guards of
  the file compare against zero and test for not-a-number, and these tests are modelled
  exactly: for finite IEEE doubles \<^verbatim>\<open>a - b == 0\<close> holds if and only if \<^verbatim>\<open>a == b\<close>.
\<close>

datatype double = NaN | NegInf | Fin real | PosInf

fun isnan :: "double \<Rightarrow> bool" where
  "isnan NaN = True"
| "isnan _ = False"

fun isfinite :: "double \<Rightarrow> bool" where
  "isfinite (Fin _) = True"
| "isfinite _ = False"

text \<open>\<^verbatim>\<open>x == 0\<close>: false for not-a-number and for the infinities.\<close>

fun is_zero :: "double \<Rightarrow> bool" where
  "is_zero (Fin x) = (x = 0)"
| "is_zero _ = False"

fun dsub :: "double \<Rightarrow> double \<Rightarrow> double" where
  "dsub NaN _ = NaN"
| "dsub _ NaN = NaN"
| "dsub (Fin x) (Fin y) = Fin (x - y)"
| "dsub (Fin _) PosInf = NegInf"
| "dsub (Fin _) NegInf = PosInf"
| "dsub PosInf PosInf = NaN"
| "dsub PosInf _ = PosInf"
| "dsub NegInf NegInf = NaN"
| "dsub NegInf _ = NegInf"

fun dmul :: "double \<Rightarrow> double \<Rightarrow> double" where
  "dmul NaN _ = NaN"
| "dmul _ NaN = NaN"
| "dmul (Fin x) (Fin y) = Fin (x * y)"
| "dmul (Fin x) PosInf = (if x = 0 then NaN else if 0 < x then PosInf else NegInf)"
| "dmul (Fin x) NegInf = (if x = 0 then NaN else if 0 < x then NegInf else PosInf)"
| "dmul PosInf (Fin y) = (if y = 0 then NaN else if 0 < y then PosInf else NegInf)"
| "dmul NegInf (Fin y) = (if y = 0 then NaN else if 0 < y then NegInf else PosInf)"
| "dmul PosInf PosInf = PosInf"
| "dmul PosInf NegInf = NegInf"
| "dmul NegInf PosInf = NegInf"
| "dmul NegInf NegInf = PosInf"

fun ddiv :: "double \<Rightarrow> double \<Rightarrow> double" where
  "ddiv NaN _ = NaN"
| "ddiv _ NaN = NaN"
| "ddiv (Fin x) (Fin y) =
     (if y = 0 then (if x = 0 then NaN else if 0 < x then PosInf else NegInf)
      else Fin (x / y))"
| "ddiv (Fin _) _ = Fin 0"
| "ddiv PosInf (Fin y) = (if 0 \<le> y then PosInf else NegInf)"
| "ddiv NegInf (Fin y) = (if 0 \<le> y then NegInf else PosInf)"
| "ddiv _ _ = NaN"

type_synonym vec3 = "double \<times> double \<times> double"

text \<open>\<^verbatim>\<open>double[6]\<close> as returned by \<^verbatim>\<open>GetBounds\<close>: xmin, xmax, ymin, ymax, zmin, zmax.\<close>

type_synonym bounds = "double \<times> double \<times> double \<times> double \<times> double \<times> double"

fun bounds0 :: "bounds \<Rightarrow> double" where
  "bounds0 (b0, b1, b2, b3, b4, b5) = b0"

fun bounds1 :: "bounds \<Rightarrow> double" where
  "bounds1 (b0, b1, b2, b3, b4, b5) = b1"

text \<open>\<^verbatim>\<open>vtkMath::MultiplyScalar(a, s)\<close>: every component of \<open>a\<close> is multiplied by \<open>s\<close>.\<close>

fun MultiplyScalar :: "vec3 \<Rightarrow> double \<Rightarrow> vec3" where
  "MultiplyScalar (x, y, z) s = (dmul x s, dmul y s, dmul z s)"

subsection \<open>Objects and the store\<close>

type_synonym addr = nat

datatype geometry = Cursor3DAxes | SphereSource nat nat | OtherGeometry

text \<open>
  A mapper.  \<open>IsOpenGLPolyDataMapper\<close> says whether
  \<^verbatim>\<open>vtkOpenGLPolyDataMapper::SafeDownCast\<close> succeeds on it; a \<^verbatim>\<open>char*\<close> array name is
  \<open>None\<close> for \<^verbatim>\<open>nullptr\<close>.
\<close>

record mapper =
  IsOpenGLPolyDataMapper :: bool
  PointIdArrayName :: "string option"
  CellIdArrayName :: "string option"
  InputGeometry :: geometry
  ResolveCoincidentTopology :: bool

record actor =
  Position :: vec3
  Scale :: vec3
  Mapper :: "addr option"
  Color :: vec3
  LineWidth :: double

record renderer =
  Actors :: "addr list"

text \<open>
  What a call leaves behind besides the state: a warning of \<^verbatim>\<open>vtkWarningMacro\<close>, and
  each floating-point division that was executed, with its operands.  Recording a
  division does not change what it computes.
\<close>

datatype event = Warning string | Division double double

text \<open>
  The scene: every address holds an object (objects are reference counted and never
  freed here); \<open>next_actor\<close> and \<open>next_mapper\<close> are where \<^verbatim>\<open>vtkNew\<close> puts the next one.
\<close>

record scene =
  actor_at :: "addr \<Rightarrow> actor"
  mapper_at :: "addr \<Rightarrow> mapper"
  next_actor :: addr
  next_mapper :: addr

text \<open>
  The representation with its \<^verbatim>\<open>vtkInternals\<close> (\<open>Cursor\<close>, \<open>NeedUpdate\<close>, and the
  picker's \<open>PickPosition\<close>), on top of the scene.  \<open>Renderer\<close>, \<open>HandleSize\<close>,
  \<open>ValidPick\<close> and \<open>MTime\<close> are members of the base class.
\<close>

record state = scene +
  Shape :: int
  CustomCursor :: "addr option"
  Cursor :: "addr option"
  NeedUpdate :: bool
  Renderer :: "renderer option"
  HandleSize :: double
  ValidPick :: bool
  MTime :: nat
  PickPosition :: vec3
  diagnostics :: "event list"

text \<open>
  The collaborators.  \<open>Pick\<close> is \<^verbatim>\<open>vtkHardwarePicker::Pick(x, y, z, renderer)\<close> run on
  the state it finds: \<open>Some p\<close> when it returns, \<open>p\<close> being the pick position it leaves in
  the picker (any triple, not-a-number components included), \<open>None\<close> when it raises.
  The pick reads the scene; of the state modelled here it writes the pick position only.
  \<open>SizeHandlesInPixels\<close> and \<open>GetBounds\<close> are the base class's and the actor's methods;
  \<open>ActorRenderOpaqueGeometry\<close> is the status the actor's render call returns.
  \<open>new_vtkActor\<close> and \<open>new_vtkPolyDataMapper\<close> are the objects \<^verbatim>\<open>vtkNew\<close> constructs.
\<close>

record collaborators =
  Pick :: "state \<Rightarrow> double \<Rightarrow> double \<Rightarrow> double \<Rightarrow> renderer \<Rightarrow> vec3 option"
  SizeHandlesInPixels :: "state \<Rightarrow> double \<Rightarrow> vec3 \<Rightarrow> double"
  GetBounds :: "state \<Rightarrow> addr \<Rightarrow> bounds"
  ActorRenderOpaqueGeometry :: "state \<Rightarrow> addr \<Rightarrow> int"
  new_vtkActor :: actor
  new_vtkPolyDataMapper :: mapper

datatype fault = NullPointer | PickFault

text \<open>
  How a call ends, with the state it leaves: it returns a value, or it is left through a
  fault.  No function of the file catches anything, so a fault ends every caller too.
\<close>

datatype 'a outcome = Returned 'a state | Raised fault state

subsection \<open>Constants of the file and of the header\<close>

text \<open>
  Modelled from the spec: the enumeration \<^verbatim>\<open>CursorShape\<close> of the header, which is
  missing; "ShapeKind: enum {Cross, Sphere, Custom}. Ordinal-ordered".
\<close>

definition CROSS_SHAPE :: int where
  "CROSS_SHAPE = 0"

definition SPHERE_SHAPE :: int where
  "SPHERE_SHAPE = 1"

definition CUSTOM_SHAPE :: int where
  "CUSTOM_SHAPE = 2"

definition CURSOR_COLOR :: vec3 where
  "CURSOR_COLOR = (Fin 1, Fin 0, Fin 0)"

definition CROSS_LINE_WIDTH :: double where
  "CROSS_LINE_WIDTH = Fin 2"

definition SPHERE_RES :: nat where
  "SPHERE_RES = 16"

subsection \<open>The cursor actors\<close>

definition CreateCrossCursor :: "collaborators \<Rightarrow> state \<Rightarrow> addr \<times> state" where
  "CreateCrossCursor E s =
     (let m = next_mapper s;
          a = next_actor s;
          mapper = (new_vtkPolyDataMapper E)
                     \<lparr>InputGeometry := Cursor3DAxes, ResolveCoincidentTopology := False\<rparr>;
          cursor = (new_vtkActor E)
                     \<lparr>Mapper := Some m, Color := CURSOR_COLOR, LineWidth := CROSS_LINE_WIDTH\<rparr>
      in (a, s\<lparr>mapper_at := (mapper_at s)(m := mapper), next_mapper := Suc m,
                actor_at := (actor_at s)(a := cursor), next_actor := Suc a\<rparr>))"

definition CreateSphereCursor :: "collaborators \<Rightarrow> state \<Rightarrow> addr \<times> state" where
  "CreateSphereCursor E s =
     (let m = next_mapper s;
          a = next_actor s;
          mapper = (new_vtkPolyDataMapper E)
                     \<lparr>InputGeometry := SphereSource SPHERE_RES SPHERE_RES,
                      ResolveCoincidentTopology := False\<rparr>;
          cursor = (new_vtkActor E)\<lparr>Mapper := Some m, Color := CURSOR_COLOR\<rparr>
      in (a, s\<lparr>mapper_at := (mapper_at s)(m := mapper), next_mapper := Suc m,
                actor_at := (actor_at s)(a := cursor), next_actor := Suc a\<rparr>))"

text \<open>
  \<^verbatim>\<open>vtkInternals::UpdateCursor\<close>.  The flag is cleared before the switch; in the
  custom case the cursor is replaced only when a custom cursor is set.
\<close>

definition UpdateCursor :: "collaborators \<Rightarrow> state \<Rightarrow> state" where
  "UpdateCursor E s =
     (if \<not> NeedUpdate s then s
      else
        let s1 = s\<lparr>NeedUpdate := False\<rparr> in
        if Shape s1 = CUSTOM_SHAPE then
          (case CustomCursor s1 of
             Some c \<Rightarrow> s1\<lparr>Cursor := Some c\<rparr>
           | None \<Rightarrow> s1)
        else if Shape s1 = SPHERE_SHAPE then
          (case CreateSphereCursor E s1 of (a, s2) \<Rightarrow> s2\<lparr>Cursor := Some a\<rparr>)
        else
          (case CreateCrossCursor E s1 of (a, s2) \<Rightarrow> s2\<lparr>Cursor := Some a\<rparr>))"

text \<open>
  Modelled from the spec: the member initialisers of the header and of the base class,
  which are missing; "Initial state: Cross, dirty=true", with no custom cursor and no
  renderer.  \<open>NeedUpdate = true\<close> and the null \<open>Cursor\<close> are the initialisers of
  \<^verbatim>\<open>vtkInternals\<close> in the file.  What the base class puts into \<open>HandleSize\<close> and
  \<open>ValidPick\<close> is overwritten by the constructor and stands here as \<open>Fin 0\<close> and
  \<open>False\<close>.
\<close>

definition initial_members :: "scene \<Rightarrow> state" where
  "initial_members h =
     \<lparr>actor_at = actor_at h, mapper_at = mapper_at h,
      next_actor = next_actor h, next_mapper = next_mapper h,
      Shape = CROSS_SHAPE, CustomCursor = None, Cursor = None, NeedUpdate = True,
      Renderer = None, HandleSize = Fin 0, ValidPick = False, MTime = 0,
      PickPosition = (Fin 0, Fin 0, Fin 0), diagnostics = []\<rparr>"

text \<open>The constructor, for a representation made in the scene \<open>h\<close>.\<close>

definition vtk3DCursorRepresentation :: "collaborators \<Rightarrow> scene \<Rightarrow> state" where
  "vtk3DCursorRepresentation E h =
     (UpdateCursor E (initial_members h))\<lparr>HandleSize := Fin 15, ValidPick := True\<rparr>"

subsection \<open>Choosing the shape\<close>

definition shape_warning :: string where
  "shape_warning =
     ''Given shape doesn't exist. Valid values are ranging between 0 and 2.'' @
     [CHR 0x0A] @ '' Previous cursor shape is preserved.''"

definition SetCursorShape :: "int \<Rightarrow> state \<Rightarrow> state" where
  "SetCursorShape shape s =
     (if shape < CROSS_SHAPE \<or> shape > CUSTOM_SHAPE then
        s\<lparr>diagnostics := diagnostics s @ [Warning shape_warning]\<rparr>
      else if shape \<noteq> Shape s then s\<lparr>Shape := shape, NeedUpdate := True\<rparr>
      else s)"

text \<open>\<^verbatim>\<open>this->Modified()\<close> advances the modification time.\<close>

definition Modified :: "state \<Rightarrow> state" where
  "Modified s = s\<lparr>MTime := Suc (MTime s)\<rparr>"

definition SetCustomCursor :: "addr option \<Rightarrow> state \<Rightarrow> state" where
  "SetCustomCursor customCursor s =
     (if customCursor \<noteq> None \<and> customCursor \<noteq> CustomCursor s then
        let s1 = Modified (s\<lparr>CustomCursor := customCursor\<rparr>) in
        if Shape s1 = CUSTOM_SHAPE then s1\<lparr>NeedUpdate := True\<rparr> else s1
      else s)"

text \<open>
  Modelled from the spec: the declaration of the member \<open>CustomCursor\<close>, in the header,
  which is missing; "customRenderable: externally-owned reference (weak - the
  representation does not own it, only references it)".  A member that is a smart
  pointer holds one reference on the object it points to, and the object lives as long
  as a reference on it is held; a plain pointer holds none.
\<close>

datatype pointer_kind = PlainPointer | SmartPointer

definition CustomCursor_kind :: pointer_kind where
  "CustomCursor_kind = PlainPointer"

text \<open>
  The number of references the representation holds on the actor \<open>a\<close>: one through
  \<open>Cursor\<close>, which \<^verbatim>\<open>vtkInternals\<close> declares in the file as a
  \<^verbatim>\<open>vtkSmartPointer<vtkActor>\<close>, when it points to \<open>a\<close>, and one through
  \<open>CustomCursor\<close> when that member is a smart pointer and points to \<open>a\<close>.
\<close>

definition references_held :: "state \<Rightarrow> addr \<Rightarrow> nat" where
  "references_held s a =
     (if Cursor s = Some a then 1 else 0) +
     (if CustomCursor_kind = SmartPointer \<and> CustomCursor s = Some a then 1 else 0)"

definition SetCursor :: "addr option \<Rightarrow> state \<Rightarrow> state" where
  "SetCursor cursor s = SetCustomCursor cursor (SetCursorShape CUSTOM_SHAPE s)"

definition GetCursor :: "state \<Rightarrow> addr option" where
  "GetCursor s = CustomCursor s"

subsection \<open>Picking\<close>

text \<open>
  \<^verbatim>\<open>std::map<vtkOpenGLPolyDataMapper*, std::string>\<close>: pairs ordered by key, one pair
  for a key.  \<open>emplace\<close> inserts only when the key is absent.
\<close>

type_synonym names = "(addr \<times> string) list"

fun emplace :: "addr \<Rightarrow> string \<Rightarrow> names \<Rightarrow> names" where
  "emplace k v [] = [(k, v)]"
| "emplace k v ((k', v') # xs) =
     (if k = k' then (k', v') # xs
      else if k < k' then (k, v) # (k', v') # xs
      else (k', v') # emplace k v xs)"

definition SetPointIdArrayName :: "addr \<Rightarrow> string option \<Rightarrow> state \<Rightarrow> state" where
  "SetPointIdArrayName m name s =
     s\<lparr>mapper_at := (mapper_at s)(m := (mapper_at s m)\<lparr>PointIdArrayName := name\<rparr>)\<rparr>"

definition SetCellIdArrayName :: "addr \<Rightarrow> string option \<Rightarrow> state \<Rightarrow> state" where
  "SetCellIdArrayName m name s =
     s\<lparr>mapper_at := (mapper_at s)(m := (mapper_at s m)\<lparr>CellIdArrayName := name\<rparr>)\<rparr>"

definition SetPosition :: "addr \<Rightarrow> vec3 \<Rightarrow> state \<Rightarrow> state" where
  "SetPosition a pos s = s\<lparr>actor_at := (actor_at s)(a := (actor_at s a)\<lparr>Position := pos\<rparr>)\<rparr>"

definition SetScale :: "addr \<Rightarrow> vec3 \<Rightarrow> state \<Rightarrow> state" where
  "SetScale a scale s = s\<lparr>actor_at := (actor_at s)(a := (actor_at s a)\<lparr>Scale := scale\<rparr>)\<rparr>"

text \<open>\<^verbatim>\<open>vtkOpenGLPolyDataMapper::SafeDownCast(actor->GetMapper())\<close>.\<close>

definition SafeDownCast :: "state \<Rightarrow> addr option \<Rightarrow> addr option" where
  "SafeDownCast s p =
     (case p of
        None \<Rightarrow> None
      | Some m \<Rightarrow> if IsOpenGLPolyDataMapper (mapper_at s m) then Some m else None)"

text \<open>The body of the first loop of \<open>WidgetInteraction\<close>, for one actor.\<close>

definition mask_actor :: "addr \<Rightarrow> state \<times> names \<times> names \<Rightarrow> state \<times> names \<times> names" where
  "mask_actor a acc =
     (case acc of (s, pointArrayNames, cellArrayNames) \<Rightarrow>
        (case SafeDownCast s (Mapper (actor_at s a)) of
           None \<Rightarrow> (s, pointArrayNames, cellArrayNames)
         | Some m \<Rightarrow>
             (case (case PointIdArrayName (mapper_at s m) of
                      Some name \<Rightarrow>
                        (SetPointIdArrayName m None s, emplace m name pointArrayNames)
                    | None \<Rightarrow> (s, pointArrayNames)) of
                (s1, pointArrayNames1) \<Rightarrow>
                  (case CellIdArrayName (mapper_at s1 m) of
                     Some name \<Rightarrow>
                       (SetCellIdArrayName m None s1, pointArrayNames1,
                        emplace m name cellArrayNames)
                   | None \<Rightarrow> (s1, pointArrayNames1, cellArrayNames)))))"

text \<open>
  The first loop visits the actors of the renderer in order: it is the fold of
  \<open>mask_actor\<close> over them, starting with two empty maps.  The state it leaves is what
  the picker sees.  The two restoring loops run through the maps in key order.
\<close>

definition masked_state :: "renderer \<Rightarrow> state \<Rightarrow> state" where
  "masked_state ren s = fst (fold mask_actor (Actors ren) (s, [], []))"

definition restore_point_names :: "names \<Rightarrow> state \<Rightarrow> state" where
  "restore_point_names pointArrayNames s =
     fold (\<lambda>item. SetPointIdArrayName (fst item) (Some (snd item))) pointArrayNames s"

definition restore_cell_names :: "names \<Rightarrow> state \<Rightarrow> state" where
  "restore_cell_names cellArrayNames s =
     fold (\<lambda>item. SetCellIdArrayName (fst item) (Some (snd item))) cellArrayNames s"

text \<open>
  \<open>WidgetInteraction\<close>.  The pick runs on the masked state; when it raises, the call is
  left at once, with the state as the first loop made it: the two restoring loops are
  ordinary statements after the call of \<open>Pick\<close>.
\<close>

definition WidgetInteraction :: "collaborators \<Rightarrow> double \<times> double \<Rightarrow> state \<Rightarrow> unit outcome" where
  "WidgetInteraction E newEventPos s =
     (case Renderer s of
        None \<Rightarrow> Returned () s
      | Some ren \<Rightarrow>
          (case fold mask_actor (Actors ren) (s, [], []) of
             (s1, pointArrayNames, cellArrayNames) \<Rightarrow>
               (case Pick E s1 (fst newEventPos) (snd newEventPos) (Fin 0) ren of
                  None \<Rightarrow> Raised PickFault s1
                | Some picked \<Rightarrow>
                    let s2 = s1\<lparr>PickPosition := picked\<rparr>;
                        s3 = restore_point_names pointArrayNames s2;
                        s4 = restore_cell_names cellArrayNames s3;
                        pos = PickPosition s4
                    in (case Cursor s4 of
                          None \<Rightarrow> Raised NullPointer s4
                        | Some c \<Rightarrow> Returned () (SetPosition c pos s4)))))"

subsection \<open>Building, rendering, releasing\<close>

text \<open>
  \<open>BuildRepresentation\<close>.  The division is recorded in the diagnostics at the place
  where it is executed, after the guard on the width.  A null cursor is a fault, here
  and in the two functions that forward to the cursor.
\<close>

definition BuildRepresentation :: "collaborators \<Rightarrow> state \<Rightarrow> unit outcome" where
  "BuildRepresentation E s =
     (let s1 = UpdateCursor E s in
      case Cursor s1 of
        None \<Rightarrow> Raised NullPointer s1
      | Some c \<Rightarrow>
          let cursorPos = Position (actor_at s1 c);
              targetSize = SizeHandlesInPixels E s1 (Fin 1) cursorPos;
              cursorBounds = GetBounds E s1 c;
              width = dsub (bounds1 cursorBounds) (bounds0 cursorBounds)
          in if is_zero width then Returned () s1
             else
               let s2 = s1\<lparr>diagnostics :=
                             diagnostics s1 @ [Division (dmul (Fin 2) targetSize) width]\<rparr>;
                   sizeRatio = ddiv (dmul (Fin 2) targetSize) width
               in if isnan sizeRatio then Returned () s2
                  else
                    Returned ()
                      (SetScale c (MultiplyScalar (Scale (actor_at s2 c)) sizeRatio) s2))"

definition ReleaseGraphicsResources :: "state \<Rightarrow> unit outcome" where
  "ReleaseGraphicsResources s =
     (case Cursor s of
        None \<Rightarrow> Raised NullPointer s
      | Some c \<Rightarrow> Returned () s)"

definition RenderOpaqueGeometry :: "collaborators \<Rightarrow> state \<Rightarrow> int outcome" where
  "RenderOpaqueGeometry E s =
     (case BuildRepresentation E s of
        Raised f s1 \<Rightarrow> Raised f s1
      | Returned u s1 \<Rightarrow>
          (case Cursor s1 of
             None \<Rightarrow> Raised NullPointer s1
           | Some c \<Rightarrow> Returned (ActorRenderOpaqueGeometry E s1 c) s1))"

subsection \<open>The states a representation can be in\<close>

text \<open>The state a call leaves, however it ends.\<close>

fun final :: "'a outcome \<Rightarrow> state" where
  "final (Returned v s) = s"
| "final (Raised f s) = s"

text \<open>
  A representation is constructed and then used through its methods, in any order and
  with any arguments; a caller may go on after a fault.  Between the calls the rest of
  the program may change anything but the four members the class owns: it binds and
  unbinds the renderer, moves actors, renames arrays.
\<close>

inductive reachable :: "collaborators \<Rightarrow> state \<Rightarrow> bool" for E :: collaborators where
  constructed: "reachable E (vtk3DCursorRepresentation E h)"
| shape_set: "reachable E s \<Longrightarrow> reachable E (SetCursorShape k s)"
| custom_set: "reachable E s \<Longrightarrow> reachable E (SetCustomCursor r s)"
| cursor_set: "reachable E s \<Longrightarrow> reachable E (SetCursor r s)"
| interacted: "reachable E s \<Longrightarrow> reachable E (final (WidgetInteraction E p s))"
| built: "reachable E s \<Longrightarrow> reachable E (final (BuildRepresentation E s))"
| released: "reachable E s \<Longrightarrow> reachable E (final (ReleaseGraphicsResources s))"
| rendered: "reachable E s \<Longrightarrow> reachable E (final (RenderOpaqueGeometry E s))"
| elsewhere:
    "reachable E s \<Longrightarrow> Shape s' = Shape s \<Longrightarrow> CustomCursor s' = CustomCursor s \<Longrightarrow>
     Cursor s' = Cursor s \<Longrightarrow> NeedUpdate s' = NeedUpdate s \<Longrightarrow> reachable E s'"

subsection \<open>A small scene for concrete runs\<close>

text \<open>
  One actor, at address 0, drawn by an OpenGL mapper, at address 0, that selects by the
  arrays ParaView generates; every other address holds a default object.  The
  collaborators answer with fixed values: the pick returns \<open>picked\<close> (or raises, for
  \<open>None\<close>), the handle size is \<open>target\<close>, every actor has the bounds \<open>b\<close>.
\<close>

definition plain_actor :: actor where
  "plain_actor =
     \<lparr>Position = (Fin 0, Fin 0, Fin 0), Scale = (Fin 1, Fin 1, Fin 1), Mapper = None,
      Color = (Fin 1, Fin 1, Fin 1), LineWidth = Fin 1\<rparr>"

definition plain_mapper :: mapper where
  "plain_mapper =
     \<lparr>IsOpenGLPolyDataMapper = True, PointIdArrayName = None, CellIdArrayName = None,
      InputGeometry = OtherGeometry, ResolveCoincidentTopology = True\<rparr>"

definition sample_scene :: scene where
  "sample_scene =
     \<lparr>actor_at = (\<lambda>a. plain_actor)(0 := plain_actor\<lparr>Mapper := Some 0\<rparr>),
      mapper_at = (\<lambda>m. plain_mapper)
        (0 := plain_mapper\<lparr>PointIdArrayName := Some ''vtkOriginalPointIds'',
                            CellIdArrayName := Some ''vtkOriginalCellIds''\<rparr>),
      next_actor = 1, next_mapper = 1\<rparr>"

definition sample_renderer :: renderer where
  "sample_renderer = \<lparr>Actors = [0]\<rparr>"

definition sample_collaborators :: "vec3 option \<Rightarrow> double \<Rightarrow> bounds \<Rightarrow> collaborators" where
  "sample_collaborators picked target b =
     \<lparr>Pick = (\<lambda>s x y z ren. picked), SizeHandlesInPixels = (\<lambda>s factor pos. target),
      GetBounds = (\<lambda>s a. b), ActorRenderOpaqueGeometry = (\<lambda>s a. 1),
      new_vtkActor = plain_actor, new_vtkPolyDataMapper = plain_mapper\<rparr>"

definition unit_bounds :: bounds where
  "unit_bounds = (Fin 0, Fin 1, Fin 0, Fin 1, Fin 0, Fin 1)"

definition flat_bounds :: bounds where
  "flat_bounds = (Fin 3, Fin 3, Fin 0, Fin 1, Fin 0, Fin 1)"



text \<open>The representation as constructed in the sample scene, then bound to the renderer.\<close>

definition sample_state :: "collaborators \<Rightarrow> state" where
  "sample_state E = (vtk3DCursorRepresentation E sample_scene)\<lparr>Renderer := Some sample_renderer\<rparr>"

subsection \<open>The invariant of the masking loop\<close>

text \<open>
  With \<open>orig\<close> the mappers as they were before the loop: a mapper differs from its
  original at most in the two names, a name is cleared exactly when the mapper is a key
  of the corresponding map, and each map holds the original name of its keys.
\<close>

definition masked :: "(addr \<Rightarrow> mapper) \<Rightarrow> state \<times> names \<times> names \<Rightarrow> bool" where
  "masked orig acc =
     (case acc of (s, pn, cn) \<Rightarrow>
        (\<forall>m. mapper_at s m =
               (orig m)\<lparr>PointIdArrayName :=
                          (if m \<in> fst ` set pn then None else PointIdArrayName (orig m)),
                        CellIdArrayName :=
                          (if m \<in> fst ` set cn then None else CellIdArrayName (orig m))\<rparr>)
        \<and> (\<forall>item \<in> set pn. PointIdArrayName (orig (fst item)) = Some (snd item))
        \<and> (\<forall>item \<in> set cn. CellIdArrayName (orig (fst item)) = Some (snd item)))"

section \<open>Properties\<close>

subsection \<open>Masking and restoring\<close>

lemma set_emplace: "set (emplace k v xs) \<subseteq> insert (k, v) (set xs)"
  by (induction xs) (auto split: if_splits)

lemma keys_emplace: "fst ` set (emplace k v xs) = insert k (fst ` set xs)"
  by (induction xs) (force split: if_splits)+

lemma masked_init: "masked (mapper_at s) (s, [], [])"
  by (simp add: masked_def)

lemma mask_actor_frame:
  "mask_actor a (s, pn, cn) = (s', pn', cn') \<Longrightarrow> s' = s\<lparr>mapper_at := mapper_at s'\<rparr>"
  by (auto simp: mask_actor_def SetPointIdArrayName_def SetCellIdArrayName_def
           split: option.splits prod.splits)

lemma fold_mask_actor_frame:
  "fold mask_actor as (s, pn, cn) = (s', pn', cn') \<Longrightarrow> s' = s\<lparr>mapper_at := mapper_at s'\<rparr>"
proof (induction as arbitrary: s pn cn)
  case Nil
  then show ?case by simp
next
  case (Cons a as)
  obtain s1 pn1 cn1 where step: "mask_actor a (s, pn, cn) = (s1, pn1, cn1)"
    by (cases "mask_actor a (s, pn, cn)") auto
  from Cons.prems step have "fold mask_actor as (s1, pn1, cn1) = (s', pn', cn')" by simp
  from Cons.IH [OF this] have 1: "s' = s1\<lparr>mapper_at := mapper_at s'\<rparr>" .
  from mask_actor_frame [OF step] have 2: "s1 = s\<lparr>mapper_at := mapper_at s1\<rparr>" .
  show ?case by (subst 1, subst 2) simp
qed

lemma masked_point:
  assumes inv: "masked orig (s, pn, cn)"
    and nm: "PointIdArrayName (mapper_at s m) = Some name"
  shows "masked orig (SetPointIdArrayName m None s, emplace m name pn, cn)"
proof -
  from inv have at: "mapper_at s m =
      (orig m)\<lparr>PointIdArrayName :=
                 (if m \<in> fst ` set pn then None else PointIdArrayName (orig m)),
               CellIdArrayName :=
                 (if m \<in> fst ` set cn then None else CellIdArrayName (orig m))\<rparr>"
    by (simp add: masked_def)
  with nm have notin: "m \<notin> fst ` set pn" and orig: "PointIdArrayName (orig m) = Some name"
    by (auto split: if_splits)
  show ?thesis
    unfolding masked_def
  proof (simp only: prod.case, intro conjI allI ballI)
    fix m'
    show "mapper_at (SetPointIdArrayName m None s) m' =
      (orig m')\<lparr>PointIdArrayName :=
                 (if m' \<in> fst ` set (emplace m name pn) then None
                  else PointIdArrayName (orig m')),
               CellIdArrayName :=
                 (if m' \<in> fst ` set cn then None else CellIdArrayName (orig m'))\<rparr>"
      using inv by (simp add: masked_def SetPointIdArrayName_def keys_emplace)
  next
    fix item assume "item \<in> set (emplace m name pn)"
    with set_emplace [of m name pn] have "item = (m, name) \<or> item \<in> set pn" by auto
    then show "PointIdArrayName (orig (fst item)) = Some (snd item)"
      using orig inv by (auto simp: masked_def)
  next
    fix item assume "item \<in> set cn"
    then show "CellIdArrayName (orig (fst item)) = Some (snd item)"
      using inv by (auto simp: masked_def)
  qed
qed

lemma masked_cell:
  assumes inv: "masked orig (s, pn, cn)"
    and nm: "CellIdArrayName (mapper_at s m) = Some name"
  shows "masked orig (SetCellIdArrayName m None s, pn, emplace m name cn)"
proof -
  from inv have at: "mapper_at s m =
      (orig m)\<lparr>PointIdArrayName :=
                 (if m \<in> fst ` set pn then None else PointIdArrayName (orig m)),
               CellIdArrayName :=
                 (if m \<in> fst ` set cn then None else CellIdArrayName (orig m))\<rparr>"
    by (simp add: masked_def)
  with nm have notin: "m \<notin> fst ` set cn" and orig: "CellIdArrayName (orig m) = Some name"
    by (auto split: if_splits)
  show ?thesis
    unfolding masked_def
  proof (simp only: prod.case, intro conjI allI ballI)
    fix m'
    show "mapper_at (SetCellIdArrayName m None s) m' =
      (orig m')\<lparr>PointIdArrayName :=
                 (if m' \<in> fst ` set pn then None else PointIdArrayName (orig m')),
               CellIdArrayName :=
                 (if m' \<in> fst ` set (emplace m name cn) then None
                  else CellIdArrayName (orig m'))\<rparr>"
      using inv by (simp add: masked_def SetCellIdArrayName_def keys_emplace)
  next
    fix item assume "item \<in> set (emplace m name cn)"
    with set_emplace [of m name cn] have "item = (m, name) \<or> item \<in> set cn" by auto
    then show "CellIdArrayName (orig (fst item)) = Some (snd item)"
      using orig inv by (auto simp: masked_def)
  next
    fix item assume "item \<in> set pn"
    then show "PointIdArrayName (orig (fst item)) = Some (snd item)"
      using inv by (auto simp: masked_def)
  qed
qed

lemma mask_actor_masked:
  assumes inv: "masked orig acc"
  shows "masked orig (mask_actor a acc)"
proof -
  obtain s pn cn where acc: "acc = (s, pn, cn)" by (cases acc) auto
  show ?thesis
  proof (cases "SafeDownCast s (Mapper (actor_at s a))")
    case None
    then show ?thesis using inv acc by (simp add: mask_actor_def)
  next
    case (Some m)
    define s1 where "s1 = (case PointIdArrayName (mapper_at s m) of
                             Some name \<Rightarrow> SetPointIdArrayName m None s | None \<Rightarrow> s)"
    define pn1 where "pn1 = (case PointIdArrayName (mapper_at s m) of
                             Some name \<Rightarrow> emplace m name pn | None \<Rightarrow> pn)"
    have inv1: "masked orig (s1, pn1, cn)"
      using inv acc masked_point [of orig s pn cn m]
      by (auto simp: s1_def pn1_def split: option.splits)
    have "masked orig (case CellIdArrayName (mapper_at s1 m) of
                         Some name \<Rightarrow> (SetCellIdArrayName m None s1, pn1, emplace m name cn)
                       | None \<Rightarrow> (s1, pn1, cn))"
      using inv1 masked_cell [of orig s1 pn1 cn m] by (auto split: option.splits)
    moreover have "mask_actor a acc =
        (case CellIdArrayName (mapper_at s1 m) of
           Some name \<Rightarrow> (SetCellIdArrayName m None s1, pn1, emplace m name cn)
         | None \<Rightarrow> (s1, pn1, cn))"
      using Some acc by (simp add: mask_actor_def s1_def pn1_def split: option.splits)
    ultimately show ?thesis by simp
  qed
qed

lemma fold_mask_actor_masked:
  "masked orig acc \<Longrightarrow> masked orig (fold mask_actor as acc)"
  by (induction as arbitrary: acc) (simp_all add: mask_actor_masked)

lemma restore_point_names_frame:
  "restore_point_names pn s = s\<lparr>mapper_at := mapper_at (restore_point_names pn s)\<rparr>"
  unfolding restore_point_names_def
proof (induction pn arbitrary: s)
  case Nil
  show ?case by simp
next
  case (Cons item pn)
  show ?case
    by (simp, subst Cons.IH) (simp add: SetPointIdArrayName_def)
qed

lemma restore_cell_names_frame:
  "restore_cell_names cn s = s\<lparr>mapper_at := mapper_at (restore_cell_names cn s)\<rparr>"
  unfolding restore_cell_names_def
proof (induction cn arbitrary: s)
  case Nil
  show ?case by simp
next
  case (Cons item cn)
  show ?case
    by (simp, subst Cons.IH) (simp add: SetCellIdArrayName_def)
qed

lemma restore_point_names_at:
  "\<forall>item \<in> set pn. f (fst item) = Some (snd item) \<Longrightarrow>
   mapper_at (restore_point_names pn s) m =
     (if m \<in> fst ` set pn then (mapper_at s m)\<lparr>PointIdArrayName := f m\<rparr> else mapper_at s m)"
  unfolding restore_point_names_def
  by (induction pn arbitrary: s) (auto simp: SetPointIdArrayName_def)

lemma restore_cell_names_at:
  "\<forall>item \<in> set cn. f (fst item) = Some (snd item) \<Longrightarrow>
   mapper_at (restore_cell_names cn s) m =
     (if m \<in> fst ` set cn then (mapper_at s m)\<lparr>CellIdArrayName := f m\<rparr> else mapper_at s m)"
  unfolding restore_cell_names_def
  by (induction cn arbitrary: s) (auto simp: SetCellIdArrayName_def)


lemma mask_restore:
  assumes fm: "fold mask_actor as (s, [], []) = (s1, pn, cn)"
  shows "restore_cell_names cn (restore_point_names pn (s1\<lparr>PickPosition := p\<rparr>)) =
         s\<lparr>PickPosition := p\<rparr>"
proof -
  let ?orig = "mapper_at s"
  let ?s2 = "s1\<lparr>PickPosition := p\<rparr>"
  let ?s3 = "restore_point_names pn ?s2"
  let ?s4 = "restore_cell_names cn ?s3"
  from fold_mask_actor_frame [OF fm] have frame: "s1 = s\<lparr>mapper_at := mapper_at s1\<rparr>" .
  from fold_mask_actor_masked [OF masked_init, where as = as and s1 = s] fm
  have inv: "masked ?orig (s1, pn, cn)" by simp
  then have pts: "\<forall>item \<in> set pn. PointIdArrayName (?orig (fst item)) = Some (snd item)"
    and cls: "\<forall>item \<in> set cn. CellIdArrayName (?orig (fst item)) = Some (snd item)"
    and at: "\<And>m. mapper_at s1 m =
      (?orig m)\<lparr>PointIdArrayName :=
                  (if m \<in> fst ` set pn then None else PointIdArrayName (?orig m)),
                CellIdArrayName :=
                  (if m \<in> fst ` set cn then None else CellIdArrayName (?orig m))\<rparr>"
    by (simp_all add: masked_def)
  have "mapper_at ?s4 m = ?orig m" for m
    by (simp add: restore_cell_names_at [where f = "\<lambda>m. CellIdArrayName (?orig m)", OF cls]
                  restore_point_names_at [where f = "\<lambda>m. PointIdArrayName (?orig m)", OF pts]
                  at)
  then have maps: "mapper_at ?s4 = ?orig" by (rule ext)
  have "?s4 = ?s3\<lparr>mapper_at := ?orig\<rparr>"
    by (subst restore_cell_names_frame) (simp only: maps)
  also have "\<dots> = ?s2\<lparr>mapper_at := ?orig\<rparr>"
    by (subst restore_point_names_frame) simp
  also have "\<dots> = s\<lparr>PickPosition := p\<rparr>"
    by (subst frame) simp
  finally show ?thesis .
qed

lemma WidgetInteraction_returned:
  assumes ren: "Renderer s = Some ren"
    and pick: "Pick E (masked_state ren s) x y (Fin 0) ren = Some p"
    and cur: "Cursor s = Some c"
  shows "WidgetInteraction E (x, y) s = Returned () (SetPosition c p (s\<lparr>PickPosition := p\<rparr>))"
proof -
  obtain s1 pn cn where fm: "fold mask_actor (Actors ren) (s, [], []) = (s1, pn, cn)"
    by (cases "fold mask_actor (Actors ren) (s, [], [])") auto
  then have s1: "masked_state ren s = s1" by (simp add: masked_state_def)
  from pick have pick1: "Pick E s1 x y (Fin 0) ren = Some p" by (simp add: s1)
  show ?thesis
    by (simp add: WidgetInteraction_def ren fm pick1 Let_def mask_restore [OF fm] cur)
qed

lemma WidgetInteraction_raised:
  assumes ren: "Renderer s = Some ren"
    and pick: "Pick E (masked_state ren s) x y (Fin 0) ren = None"
  shows "WidgetInteraction E (x, y) s = Raised PickFault (masked_state ren s)"
  using ren pick
  by (auto simp: WidgetInteraction_def masked_state_def split: prod.splits)

lemma masked_state_frame:
  "masked_state ren s = s\<lparr>mapper_at := mapper_at (masked_state ren s)\<rparr>"
proof -
  obtain s1 pn cn where fm: "fold mask_actor (Actors ren) (s, [], []) = (s1, pn, cn)"
    by (cases "fold mask_actor (Actors ren) (s, [], [])") auto
  from fold_mask_actor_frame [OF fm] show ?thesis
    by (simp add: masked_state_def fm)
qed

subsection \<open>The shape state machine\<close>

lemmas shape_defs = CROSS_SHAPE_def SPHERE_SHAPE_def CUSTOM_SHAPE_def

lemmas sample_defs = sample_state_def sample_scene_def sample_renderer_def
  sample_collaborators_def plain_actor_def plain_mapper_def vtk3DCursorRepresentation_def
  initial_members_def
  UpdateCursor_def CreateCrossCursor_def CreateSphereCursor_def shape_defs Let_def

text \<open>
  Claim C2.  For every integer \<open>k\<close> outside the range from \<open>CROSS_SHAPE\<close> to
  \<open>CUSTOM_SHAPE\<close>, \<open>SetCursorShape k\<close> changes nothing but the diagnostics, to which it
  adds one warning: the shape, the update flag, the cursor and the actors are as before.
  The function has no fault outcome: nothing is raised to the caller.
\<close>

theorem SetCursorShape_out_of_range:
  assumes "k < CROSS_SHAPE \<or> k > CUSTOM_SHAPE"
  shows "SetCursorShape k s = s\<lparr>diagnostics := diagnostics s @ [Warning shape_warning]\<rparr>
       \<and> Shape (SetCursorShape k s) = Shape s
       \<and> NeedUpdate (SetCursorShape k s) = NeedUpdate s
       \<and> Cursor (SetCursorShape k s) = Cursor s
       \<and> actor_at (SetCursorShape k s) = actor_at s"
  using assms by (auto simp: SetCursorShape_def)

text \<open>
  The shapes \<open>-1\<close> and \<open>99\<close> on the sample state: the shape stays \<open>CROSS_SHAPE\<close>.
\<close>

theorem SetCursorShape_out_of_range_witness:
  "Shape (SetCursorShape (- 1) (sample_state (sample_collaborators None NaN unit_bounds))) = 0
   \<and> Shape (SetCursorShape 99 (sample_state (sample_collaborators None NaN unit_bounds))) = 0
   \<and> diagnostics (SetCursorShape 99 (sample_state (sample_collaborators None NaN unit_bounds)))
       = [Warning shape_warning]"
proof -
  let ?s = "sample_state (sample_collaborators None NaN unit_bounds)"
  have lo: "- 1 < CROSS_SHAPE \<or> - 1 > CUSTOM_SHAPE" by (simp add: shape_defs)
  have hi: "99 < CROSS_SHAPE \<or> 99 > CUSTOM_SHAPE" by (simp add: shape_defs)
  have s0: "Shape ?s = 0" "diagnostics ?s = []" by (simp_all add: sample_defs)
  from SetCursorShape_out_of_range [OF lo, of ?s] SetCursorShape_out_of_range [OF hi, of ?s]
  show ?thesis by (simp add: s0)
qed

lemma UpdateCursor_clean: "\<not> NeedUpdate s \<Longrightarrow> UpdateCursor E s = s"
  by (simp add: UpdateCursor_def)

lemma UpdateCursor_clears: "\<not> NeedUpdate (UpdateCursor E s)"
  by (simp add: UpdateCursor_def CreateSphereCursor_def CreateCrossCursor_def Let_def
           split: option.splits)

lemma UpdateCursor_custom:
  "NeedUpdate s \<Longrightarrow> Shape s = CUSTOM_SHAPE \<Longrightarrow>
   UpdateCursor E s =
     (case CustomCursor s of
        Some r \<Rightarrow> s\<lparr>NeedUpdate := False, Cursor := Some r\<rparr>
      | None \<Rightarrow> s\<lparr>NeedUpdate := False\<rparr>)"
  by (simp add: UpdateCursor_def Let_def split: option.splits)

lemma UpdateCursor_sphere:
  assumes "NeedUpdate s" and "Shape s = SPHERE_SHAPE"
  shows "Cursor (UpdateCursor E s) = Some (next_actor s)
       \<and> actor_at (UpdateCursor E s) (next_actor s) =
           (new_vtkActor E)\<lparr>Mapper := Some (next_mapper s), Color := CURSOR_COLOR\<rparr>
       \<and> mapper_at (UpdateCursor E s) (next_mapper s) =
           (new_vtkPolyDataMapper E)\<lparr>InputGeometry := SphereSource 16 16,
                                     ResolveCoincidentTopology := False\<rparr>"
  using assms
  by (simp add: UpdateCursor_def CreateSphereCursor_def Let_def shape_defs SPHERE_RES_def)

lemma UpdateCursor_cross:
  assumes "NeedUpdate s" and "Shape s \<noteq> CUSTOM_SHAPE" and "Shape s \<noteq> SPHERE_SHAPE"
  shows "Cursor (UpdateCursor E s) = Some (next_actor s)
       \<and> actor_at (UpdateCursor E s) (next_actor s) =
           (new_vtkActor E)\<lparr>Mapper := Some (next_mapper s), Color := CURSOR_COLOR,
                            LineWidth := CROSS_LINE_WIDTH\<rparr>
       \<and> mapper_at (UpdateCursor E s) (next_mapper s) =
           (new_vtkPolyDataMapper E)\<lparr>InputGeometry := Cursor3DAxes,
                                     ResolveCoincidentTopology := False\<rparr>"
  using assms
  by (simp add: UpdateCursor_def CreateCrossCursor_def Let_def)

lemma UpdateCursor_diagnostics: "diagnostics (UpdateCursor E s) = diagnostics s"
  by (simp add: UpdateCursor_def CreateSphereCursor_def CreateCrossCursor_def Let_def
           split: option.splits)

lemma UpdateCursor_keeps_cursor: "Cursor s \<noteq> None \<Longrightarrow> Cursor (UpdateCursor E s) \<noteq> None"
  by (auto simp: UpdateCursor_def CreateSphereCursor_def CreateCrossCursor_def Let_def
           split: option.splits)

lemma UpdateCursor_members:
  "Shape (UpdateCursor E s) = Shape s \<and> CustomCursor (UpdateCursor E s) = CustomCursor s"
  by (simp add: UpdateCursor_def CreateSphereCursor_def CreateCrossCursor_def Let_def
           split: option.splits)

text \<open>
  Claim C3.  \<open>UpdateCursor\<close> does nothing when the update flag is clear.  When it is set:
  for the custom shape the cursor becomes the custom cursor if there is one and stays
  what it was otherwise; for the sphere shape the cursor is a new actor on a sphere
  source of resolution 16; for every other shape, values outside the enumeration
  included, it is a new actor on the axes of a \<^verbatim>\<open>vtkCursor3D\<close>.  The flag is clear after
  every call.
\<close>

theorem UpdateCursor_dispatch:
  "(\<not> NeedUpdate s \<longrightarrow> UpdateCursor E s = s)
   \<and> (NeedUpdate s \<and> Shape s = CUSTOM_SHAPE \<longrightarrow>
        UpdateCursor E s =
          (case CustomCursor s of
             Some r \<Rightarrow> s\<lparr>NeedUpdate := False, Cursor := Some r\<rparr>
           | None \<Rightarrow> s\<lparr>NeedUpdate := False\<rparr>))
   \<and> (NeedUpdate s \<and> Shape s = SPHERE_SHAPE \<longrightarrow>
        Cursor (UpdateCursor E s) = Some (next_actor s)
        \<and> actor_at (UpdateCursor E s) (next_actor s) =
            (new_vtkActor E)\<lparr>Mapper := Some (next_mapper s), Color := CURSOR_COLOR\<rparr>
        \<and> mapper_at (UpdateCursor E s) (next_mapper s) =
            (new_vtkPolyDataMapper E)\<lparr>InputGeometry := SphereSource 16 16,
                                      ResolveCoincidentTopology := False\<rparr>)
   \<and> (NeedUpdate s \<and> Shape s \<noteq> CUSTOM_SHAPE \<and> Shape s \<noteq> SPHERE_SHAPE \<longrightarrow>
        Cursor (UpdateCursor E s) = Some (next_actor s)
        \<and> actor_at (UpdateCursor E s) (next_actor s) =
            (new_vtkActor E)\<lparr>Mapper := Some (next_mapper s), Color := CURSOR_COLOR,
                             LineWidth := CROSS_LINE_WIDTH\<rparr>
        \<and> mapper_at (UpdateCursor E s) (next_mapper s) =
            (new_vtkPolyDataMapper E)\<lparr>InputGeometry := Cursor3DAxes,
                                      ResolveCoincidentTopology := False\<rparr>)
   \<and> \<not> NeedUpdate (UpdateCursor E s)"
  using UpdateCursor_clean [of s E] UpdateCursor_clears [of E s] UpdateCursor_custom [of s E]
    UpdateCursor_sphere [of s E] UpdateCursor_cross [of s E]
  by blast


text \<open>
  Each branch on the sample state: a clean state; the custom shape without and with a
  custom cursor; the sphere; the left-over shape \<open>7\<close>.
\<close>

theorem UpdateCursor_dispatch_witness:
  "UpdateCursor (sample_collaborators None NaN unit_bounds)
     (sample_state (sample_collaborators None NaN unit_bounds)) =
     sample_state (sample_collaborators None NaN unit_bounds)
   \<and> Cursor (UpdateCursor (sample_collaborators None NaN unit_bounds)
        (SetCursorShape CUSTOM_SHAPE
          (sample_state (sample_collaborators None NaN unit_bounds)))) = Some 1
   \<and> Cursor (UpdateCursor (sample_collaborators None NaN unit_bounds)
        (SetCustomCursor (Some 0) (SetCursorShape CUSTOM_SHAPE
          (sample_state (sample_collaborators None NaN unit_bounds))))) = Some 0
   \<and> InputGeometry (mapper_at (UpdateCursor (sample_collaborators None NaN unit_bounds)
        (SetCursorShape SPHERE_SHAPE
          (sample_state (sample_collaborators None NaN unit_bounds)))) 2) = SphereSource 16 16
   \<and> InputGeometry (mapper_at (UpdateCursor (sample_collaborators None NaN unit_bounds)
        ((sample_state (sample_collaborators None NaN unit_bounds))
           \<lparr>Shape := 7, NeedUpdate := True\<rparr>)) 2) = Cursor3DAxes
   \<and> \<not> NeedUpdate (UpdateCursor (sample_collaborators None NaN unit_bounds)
        (SetCursorShape SPHERE_SHAPE
          (sample_state (sample_collaborators None NaN unit_bounds))))"
proof -
  let ?E = "sample_collaborators None NaN unit_bounds"
  let ?s = "sample_state ?E"
  let ?custom = "SetCursorShape CUSTOM_SHAPE ?s"
  let ?adopted = "SetCustomCursor (Some 0) ?custom"
  let ?sphere = "SetCursorShape SPHERE_SHAPE ?s"
  let ?odd = "?s\<lparr>Shape := 7, NeedUpdate := True\<rparr>"
  have s: "\<not> NeedUpdate ?s" "Shape ?s = 0" "Cursor ?s = Some 1" "CustomCursor ?s = None"
    "next_actor ?s = 2" "next_mapper ?s = 2"
    by (simp_all add: sample_defs)
  have c: "NeedUpdate ?custom \<and> Shape ?custom = CUSTOM_SHAPE" "CustomCursor ?custom = None"
    "Cursor ?custom = Some 1"
    by (simp_all add: SetCursorShape_def s shape_defs)
  have ad: "NeedUpdate ?adopted \<and> Shape ?adopted = CUSTOM_SHAPE" "CustomCursor ?adopted = Some 0"
    using c by (simp_all add: SetCustomCursor_def Modified_def Let_def)
  have sp: "NeedUpdate ?sphere \<and> Shape ?sphere = SPHERE_SHAPE" "next_mapper ?sphere = 2"
    by (simp_all add: SetCursorShape_def s shape_defs)
  have od: "NeedUpdate ?odd \<and> Shape ?odd \<noteq> CUSTOM_SHAPE \<and> Shape ?odd \<noteq> SPHERE_SHAPE"
    "next_mapper ?odd = 2"
    by (simp_all add: s shape_defs)
  from UpdateCursor_dispatch [of ?s ?E] s(1)
  have 1: "UpdateCursor ?E ?s = ?s" by blast
  from UpdateCursor_dispatch [of ?custom ?E] c
  have 2: "Cursor (UpdateCursor ?E ?custom) = Some 1" by simp
  from UpdateCursor_dispatch [of ?adopted ?E] ad
  have 3: "Cursor (UpdateCursor ?E ?adopted) = Some 0" by simp
  from UpdateCursor_dispatch [of ?sphere ?E] sp
  have 4: "InputGeometry (mapper_at (UpdateCursor ?E ?sphere) 2) = SphereSource 16 16"
    and 6: "\<not> NeedUpdate (UpdateCursor ?E ?sphere)"
    by simp_all
  from UpdateCursor_dispatch [of ?odd ?E] od
  have 5: "InputGeometry (mapper_at (UpdateCursor ?E ?odd) 2) = Cursor3DAxes" by simp
  from 1 2 3 4 5 6 show ?thesis by blast
qed

text \<open>
  Claim C8.  \<open>SetCustomCursor r\<close> does nothing when \<open>r\<close> is null or is the custom cursor
  already stored.  Otherwise it stores the address \<open>r\<close>, advances the modification
  time, and sets the update flag exactly when the shape is \<open>CUSTOM_SHAPE\<close>; with
  another shape the flag stays as it was.  The stored reference is not an owning one: in
  every case the representation holds on every actor as many references after the call
  as before, the actors themselves are untouched, and the cursor is the one it was.
\<close>

theorem SetCustomCursor_effect:
  "(r = None \<or> r = CustomCursor s \<longrightarrow> SetCustomCursor r s = s)
   \<and> (r \<noteq> None \<and> r \<noteq> CustomCursor s \<longrightarrow>
        SetCustomCursor r s =
          s\<lparr>CustomCursor := r, MTime := Suc (MTime s),
            NeedUpdate := (Shape s = CUSTOM_SHAPE \<or> NeedUpdate s)\<rparr>)
   \<and> (\<forall>a. references_held (SetCustomCursor r s) a = references_held s a)
   \<and> actor_at (SetCustomCursor r s) = actor_at s
   \<and> Cursor (SetCustomCursor r s) = Cursor s"
  by (auto simp: SetCustomCursor_def Modified_def Let_def references_held_def
        CustomCursor_kind_def)

text \<open>
  On the sample state: a null argument; a new custom cursor under the cross shape (flag
  stays clear) and under the custom shape (flag set); the same cursor given twice.  No
  reference is held on the actor at address 0 once it is the custom cursor; one is held
  when \<open>UpdateCursor\<close> has made it the cursor.
\<close>

theorem SetCustomCursor_effect_witness:
  "SetCustomCursor None (sample_state (sample_collaborators None NaN unit_bounds)) =
     sample_state (sample_collaborators None NaN unit_bounds)
   \<and> CustomCursor (SetCustomCursor (Some 0)
        (sample_state (sample_collaborators None NaN unit_bounds))) = Some 0
   \<and> \<not> NeedUpdate (SetCustomCursor (Some 0)
        (sample_state (sample_collaborators None NaN unit_bounds)))
   \<and> NeedUpdate (SetCustomCursor (Some 0)
        ((sample_state (sample_collaborators None NaN unit_bounds))
           \<lparr>Shape := CUSTOM_SHAPE\<rparr>))
   \<and> SetCustomCursor (Some 0) (SetCustomCursor (Some 0)
        (sample_state (sample_collaborators None NaN unit_bounds))) =
      SetCustomCursor (Some 0) (sample_state (sample_collaborators None NaN unit_bounds))
   \<and> references_held (SetCustomCursor (Some 0)
        (sample_state (sample_collaborators None NaN unit_bounds))) 0 = 0
   \<and> references_held (UpdateCursor (sample_collaborators None NaN unit_bounds)
        (SetCustomCursor (Some 0) (SetCursorShape CUSTOM_SHAPE
           (sample_state (sample_collaborators None NaN unit_bounds))))) 0 = 1"
proof -
  let ?E = "sample_collaborators None NaN unit_bounds"
  let ?s = "sample_state ?E"
  let ?c = "?s\<lparr>Shape := CUSTOM_SHAPE\<rparr>"
  let ?chosen = "SetCustomCursor (Some 0) (SetCursorShape CUSTOM_SHAPE ?s)"
  have s: "\<not> NeedUpdate ?s" "Shape ?s = 0" "CustomCursor ?s = None" "Cursor ?s = Some 1"
    by (simp_all add: sample_defs)
  from SetCustomCursor_effect [of None ?s]
  have 1: "SetCustomCursor None ?s = ?s" by simp
  from SetCustomCursor_effect [of "Some 0" ?s] s
  have 2: "SetCustomCursor (Some 0) ?s =
           ?s\<lparr>CustomCursor := Some 0, MTime := Suc (MTime ?s), NeedUpdate := False\<rparr>"
    by (simp add: shape_defs)
  from SetCustomCursor_effect [of "Some 0" ?c] s
  have 3: "NeedUpdate (SetCustomCursor (Some 0) ?c)" by (simp add: shape_defs)
  from SetCustomCursor_effect [of "Some 0" "SetCustomCursor (Some 0) ?s"] 2
  have 4: "SetCustomCursor (Some 0) (SetCustomCursor (Some 0) ?s) = SetCustomCursor (Some 0) ?s"
    by simp
  have "references_held ?s 0 = 0"
    by (simp add: references_held_def CustomCursor_kind_def s)
  with SetCustomCursor_effect [of "Some 0" ?s]
  have 5: "references_held (SetCustomCursor (Some 0) ?s) 0 = 0" by simp
  have "NeedUpdate ?chosen" "Shape ?chosen = CUSTOM_SHAPE" "CustomCursor ?chosen = Some 0"
    by (simp_all add: SetCustomCursor_def SetCursorShape_def Modified_def Let_def s shape_defs)
  then have "Cursor (UpdateCursor ?E ?chosen) = Some 0"
    by (simp add: UpdateCursor_custom)
  then have 6: "references_held (UpdateCursor ?E ?chosen) 0 = 1"
    by (simp add: references_held_def CustomCursor_kind_def)
  from 1 2 3 4 5 6 show ?thesis by simp
qed

subsection \<open>Picking: what a call of WidgetInteraction leaves\<close>

lemma WidgetInteraction_unbound:
  "Renderer s = None \<Longrightarrow> WidgetInteraction E pos s = Returned () s"
  by (simp add: WidgetInteraction_def)

lemma WidgetInteraction_no_cursor:
  assumes ren: "Renderer s = Some ren"
    and pick: "Pick E (masked_state ren s) x y (Fin 0) ren = Some p"
    and cur: "Cursor s = None"
  shows "WidgetInteraction E (x, y) s = Raised NullPointer (s\<lparr>PickPosition := p\<rparr>)"
proof -
  obtain s1 pn cn where fm: "fold mask_actor (Actors ren) (s, [], []) = (s1, pn, cn)"
    by (cases "fold mask_actor (Actors ren) (s, [], [])") auto
  then have s1: "masked_state ren s = s1" by (simp add: masked_state_def)
  from pick have pick1: "Pick E s1 x y (Fin 0) ren = Some p" by (simp add: s1)
  show ?thesis
    by (simp add: WidgetInteraction_def ren fm pick1 Let_def mask_restore [OF fm] cur)
qed

lemma masked_state_names_only:
  "mapper_at (masked_state ren s) m =
     (mapper_at s m)\<lparr>PointIdArrayName := PointIdArrayName (mapper_at (masked_state ren s) m),
                     CellIdArrayName := CellIdArrayName (mapper_at (masked_state ren s) m)\<rparr>"
proof -
  obtain s1 pn cn where fm: "fold mask_actor (Actors ren) (s, [], []) = (s1, pn, cn)"
    by (cases "fold mask_actor (Actors ren) (s, [], [])") auto
  from fold_mask_actor_masked [OF masked_init, where as = "Actors ren" and s1 = s] fm
  have "masked (mapper_at s) (s1, pn, cn)" by simp
  then have "mapper_at s1 m =
      (mapper_at s m)\<lparr>PointIdArrayName :=
                  (if m \<in> fst ` set pn then None else PointIdArrayName (mapper_at s m)),
                CellIdArrayName :=
                  (if m \<in> fst ` set cn then None else CellIdArrayName (mapper_at s m))\<rparr>"
    by (simp add: masked_def)
  moreover have "masked_state ren s = s1" by (simp add: masked_state_def fm)
  ultimately show ?thesis by simp
qed

text \<open>The four ways through \<open>WidgetInteraction\<close>.\<close>

lemma WidgetInteraction_cases:
  obtains
    (unbound) "Renderer s = None" "WidgetInteraction E (x, y) s = Returned () s"
  | (raised) ren where "Renderer s = Some ren"
      "Pick E (masked_state ren s) x y (Fin 0) ren = None"
      "WidgetInteraction E (x, y) s = Raised PickFault (masked_state ren s)"
  | (no_cursor) ren p where "Renderer s = Some ren"
      "Pick E (masked_state ren s) x y (Fin 0) ren = Some p" "Cursor s = None"
      "WidgetInteraction E (x, y) s = Raised NullPointer (s\<lparr>PickPosition := p\<rparr>)"
  | (moved) ren p c where "Renderer s = Some ren"
      "Pick E (masked_state ren s) x y (Fin 0) ren = Some p" "Cursor s = Some c"
      "WidgetInteraction E (x, y) s =
         Returned () (SetPosition c p (s\<lparr>PickPosition := p\<rparr>))"
proof (cases "Renderer s")
  case None
  then show ?thesis using unbound WidgetInteraction_unbound by blast
next
  case (Some ren)
  show ?thesis
  proof (cases "Pick E (masked_state ren s) x y (Fin 0) ren")
    case None
    then show ?thesis using raised Some WidgetInteraction_raised by blast
  next
    case pick: (Some p)
    show ?thesis
    proof (cases "Cursor s")
      case None
      then show ?thesis using no_cursor Some pick WidgetInteraction_no_cursor by blast
    next
      case cur: (Some c)
      then show ?thesis using moved Some pick WidgetInteraction_returned by blast
    qed
  qed
qed

text \<open>
  Claim C1, as amended.  For every call of \<open>WidgetInteraction\<close> with a renderer in which
  the pick returns, whatever position it reports, every mapper is afterwards what it was
  before the call; in particular its point and cell identifier array names are the
  original ones.  (This holds also when the call then fails on a missing cursor.)
\<close>

theorem WidgetInteraction_restores_names:
  assumes ren: "Renderer s = Some ren"
    and pick: "Pick E (masked_state ren s) x y (Fin 0) ren = Some p"
  shows "mapper_at (final (WidgetInteraction E (x, y) s)) = mapper_at s
       \<and> (\<forall>m. PointIdArrayName (mapper_at (final (WidgetInteraction E (x, y) s)) m) =
                 PointIdArrayName (mapper_at s m)
              \<and> CellIdArrayName (mapper_at (final (WidgetInteraction E (x, y) s)) m) =
                 CellIdArrayName (mapper_at s m))"
proof -
  have "mapper_at (final (WidgetInteraction E (x, y) s)) = mapper_at s"
    using ren pick
    by (cases rule: WidgetInteraction_cases [of s E x y]) (simp_all add: SetPosition_def)
  then show ?thesis by simp
qed

text \<open>
  A pick without intersection, reporting not-a-number, on the sample state.
\<close>

theorem WidgetInteraction_restores_names_witness:
  "Renderer (sample_state (sample_collaborators (Some (NaN, NaN, NaN)) NaN unit_bounds)) =
     Some sample_renderer
   \<and> Pick (sample_collaborators (Some (NaN, NaN, NaN)) NaN unit_bounds)
       (masked_state sample_renderer
          (sample_state (sample_collaborators (Some (NaN, NaN, NaN)) NaN unit_bounds)))
       (Fin 0) (Fin 0) (Fin 0) sample_renderer = Some (NaN, NaN, NaN)
   \<and> PointIdArrayName (mapper_at (final (WidgetInteraction
        (sample_collaborators (Some (NaN, NaN, NaN)) NaN unit_bounds) (Fin 0, Fin 0)
        (sample_state (sample_collaborators (Some (NaN, NaN, NaN)) NaN unit_bounds)))) 0) =
     Some ''vtkOriginalPointIds''
   \<and> CellIdArrayName (mapper_at (final (WidgetInteraction
        (sample_collaborators (Some (NaN, NaN, NaN)) NaN unit_bounds) (Fin 0, Fin 0)
        (sample_state (sample_collaborators (Some (NaN, NaN, NaN)) NaN unit_bounds)))) 0) =
     Some ''vtkOriginalCellIds''"
proof -
  let ?E = "sample_collaborators (Some (NaN, NaN, NaN)) NaN unit_bounds"
  let ?s = "sample_state ?E"
  have ren: "Renderer ?s = Some sample_renderer" by (simp add: sample_state_def)
  have pick: "Pick ?E (masked_state sample_renderer ?s) (Fin 0) (Fin 0) (Fin 0) sample_renderer
              = Some (NaN, NaN, NaN)"
    by (simp add: sample_collaborators_def)
  have before: "PointIdArrayName (mapper_at ?s 0) = Some ''vtkOriginalPointIds''"
    "CellIdArrayName (mapper_at ?s 0) = Some ''vtkOriginalCellIds''"
    by (simp_all add: sample_defs)
  from WidgetInteraction_restores_names [OF ren pick] before ren pick
  show ?thesis by simp
qed

text \<open>
  Claim C1 as stated fails: the restoring loops follow the call of \<open>Pick\<close> as ordinary
  statements, so a pick that raises leaves the names cleared.  On the sample state the
  call ends with the fault of the pick, and the mapper at address 0 has lost both names.
\<close>

theorem WidgetInteraction_pick_fault_leaves_mask:
  "WidgetInteraction (sample_collaborators None NaN unit_bounds) (Fin 0, Fin 0)
     (sample_state (sample_collaborators None NaN unit_bounds)) =
     Raised PickFault
       (masked_state sample_renderer (sample_state (sample_collaborators None NaN unit_bounds)))
   \<and> PointIdArrayName (mapper_at (sample_state (sample_collaborators None NaN unit_bounds)) 0) =
       Some ''vtkOriginalPointIds''
   \<and> CellIdArrayName (mapper_at (sample_state (sample_collaborators None NaN unit_bounds)) 0) =
       Some ''vtkOriginalCellIds''
   \<and> PointIdArrayName (mapper_at (final (WidgetInteraction
        (sample_collaborators None NaN unit_bounds) (Fin 0, Fin 0)
        (sample_state (sample_collaborators None NaN unit_bounds)))) 0) = None
   \<and> CellIdArrayName (mapper_at (final (WidgetInteraction
        (sample_collaborators None NaN unit_bounds) (Fin 0, Fin 0)
        (sample_state (sample_collaborators None NaN unit_bounds)))) 0) = None"
proof -
  let ?E = "sample_collaborators None NaN unit_bounds"
  let ?s = "sample_state ?E"
  have ren: "Renderer ?s = Some sample_renderer" by (simp add: sample_state_def)
  have pick: "Pick ?E (masked_state sample_renderer ?s) (Fin 0) (Fin 0) (Fin 0) sample_renderer
              = None"
    by (simp add: sample_collaborators_def)
  have run: "WidgetInteraction ?E (Fin 0, Fin 0) ?s =
             Raised PickFault (masked_state sample_renderer ?s)"
    by (rule WidgetInteraction_raised [OF ren pick])
  have before: "PointIdArrayName (mapper_at ?s 0) = Some ''vtkOriginalPointIds''"
    "CellIdArrayName (mapper_at ?s 0) = Some ''vtkOriginalCellIds''"
    by (simp_all add: sample_defs)
  have after: "PointIdArrayName (mapper_at (masked_state sample_renderer ?s) 0) = None"
    "CellIdArrayName (mapper_at (masked_state sample_renderer ?s) 0) = None"
    by (simp_all add: masked_state_def mask_actor_def SafeDownCast_def SetPointIdArrayName_def
          SetCellIdArrayName_def sample_defs)
  show ?thesis by (simp add: run before after)
qed

text \<open>
  Claim C7.  Without a renderer \<open>WidgetInteraction\<close> returns the state unchanged, for
  every event position.  With a renderer and a cursor \<open>c\<close>, when the pick returns the
  position \<open>p\<close>, the call returns and the position of \<open>c\<close> is \<open>p\<close>: there is no
  condition on \<open>p\<close>, so a position with not-a-number or infinite components is stored
  as it is and the call still returns.
\<close>

theorem WidgetInteraction_sets_position:
  "(Renderer s = None \<longrightarrow> WidgetInteraction E (x, y) s = Returned () s)
   \<and> (Renderer s = Some ren \<and> Cursor s = Some c
        \<and> Pick E (masked_state ren s) x y (Fin 0) ren = Some p \<longrightarrow>
        (\<exists>s'. WidgetInteraction E (x, y) s = Returned () s'
              \<and> Position (actor_at s' c) = p \<and> Cursor s' = Some c))"
  by (cases rule: WidgetInteraction_cases [of s E x y]) (auto simp: SetPosition_def)

text \<open>
  The constructed representation without renderer, and the sample state with a pick
  that reports a position with a not-a-number and an infinite component.
\<close>

theorem WidgetInteraction_sets_position_witness:
  "WidgetInteraction (sample_collaborators (Some (NaN, PosInf, Fin 2)) NaN unit_bounds)
     (Fin 4, Fin 5)
     (vtk3DCursorRepresentation
        (sample_collaborators (Some (NaN, PosInf, Fin 2)) NaN unit_bounds) sample_scene) =
   Returned ()
     (vtk3DCursorRepresentation
        (sample_collaborators (Some (NaN, PosInf, Fin 2)) NaN unit_bounds) sample_scene)
   \<and> (\<exists>s'. WidgetInteraction (sample_collaborators (Some (NaN, PosInf, Fin 2)) NaN unit_bounds)
          (Fin 4, Fin 5)
          (sample_state (sample_collaborators (Some (NaN, PosInf, Fin 2)) NaN unit_bounds)) =
          Returned () s'
        \<and> Position (actor_at s' 1) = (NaN, PosInf, Fin 2))"
proof -
  let ?E = "sample_collaborators (Some (NaN, PosInf, Fin 2)) NaN unit_bounds"
  let ?new = "vtk3DCursorRepresentation ?E sample_scene"
  let ?s = "sample_state ?E"
  have unbound: "Renderer ?new = None" by (simp add: sample_defs)
  have bound: "Renderer ?s = Some sample_renderer \<and> Cursor ?s = Some 1
     \<and> Pick ?E (masked_state sample_renderer ?s) (Fin 4) (Fin 5) (Fin 0) sample_renderer =
         Some (NaN, PosInf, Fin 2)"
    by (simp add: sample_defs)
  from WidgetInteraction_sets_position [of ?new ?E "Fin 4" "Fin 5"] unbound
  have 1: "WidgetInteraction ?E (Fin 4, Fin 5) ?new = Returned () ?new" by blast
  from WidgetInteraction_sets_position
         [of ?s ?E "Fin 4" "Fin 5" sample_renderer 1 "(NaN, PosInf, Fin 2)"] bound
  have 2: "\<exists>s'. WidgetInteraction ?E (Fin 4, Fin 5) ?s = Returned () s'
                \<and> Position (actor_at s' 1) = (NaN, PosInf, Fin 2)"
    by blast
  from 1 2 show ?thesis by blast
qed

lemma WidgetInteraction_members:
  "Shape (final (WidgetInteraction E (x, y) s)) = Shape s
   \<and> CustomCursor (final (WidgetInteraction E (x, y) s)) = CustomCursor s
   \<and> NeedUpdate (final (WidgetInteraction E (x, y) s)) = NeedUpdate s
   \<and> Cursor (final (WidgetInteraction E (x, y) s)) = Cursor s"
proof (cases rule: WidgetInteraction_cases [of s E x y])
  case unbound
  then show ?thesis by simp
next
  case (raised ren)
  have fr: "masked_state ren s = s\<lparr>mapper_at := mapper_at (masked_state ren s)\<rparr>"
    by (rule masked_state_frame)
  have "Shape (masked_state ren s) = Shape s"
    "CustomCursor (masked_state ren s) = CustomCursor s"
    "NeedUpdate (masked_state ren s) = NeedUpdate s"
    "Cursor (masked_state ren s) = Cursor s"
    by (subst fr, simp)+
  with raised(3) show ?thesis by simp
next
  case (no_cursor ren p)
  then show ?thesis by simp
next
  case (moved ren p c)
  then show ?thesis by (simp add: SetPosition_def)
qed

text \<open>
  Claim C10, as amended.  Whatever way a call of \<open>WidgetInteraction\<close> ends: the shape, the custom
  cursor, the update flag and the cursor are unchanged; the state differs from the one
  before at most in the pick position of the picker, the actors and the mappers; every
  actor keeps its scale and differs at most in its position; every actor that is not the
  cursor is unchanged; every mapper differs at most in its two array names; and when the
  call returns, the mappers are exactly as before the call.
\<close>

theorem WidgetInteraction_frame:
  "Shape (final (WidgetInteraction E (x, y) s)) = Shape s
   \<and> CustomCursor (final (WidgetInteraction E (x, y) s)) = CustomCursor s
   \<and> NeedUpdate (final (WidgetInteraction E (x, y) s)) = NeedUpdate s
   \<and> Cursor (final (WidgetInteraction E (x, y) s)) = Cursor s
   \<and> final (WidgetInteraction E (x, y) s) =
       s\<lparr>PickPosition := PickPosition (final (WidgetInteraction E (x, y) s)),
         actor_at := actor_at (final (WidgetInteraction E (x, y) s)),
         mapper_at := mapper_at (final (WidgetInteraction E (x, y) s))\<rparr>
   \<and> (\<forall>a. Scale (actor_at (final (WidgetInteraction E (x, y) s)) a) = Scale (actor_at s a))
   \<and> (\<forall>a. actor_at (final (WidgetInteraction E (x, y) s)) a =
            (actor_at s a)
              \<lparr>Position := Position (actor_at (final (WidgetInteraction E (x, y) s)) a)\<rparr>)
   \<and> (\<forall>a. Cursor s \<noteq> Some a \<longrightarrow>
            actor_at (final (WidgetInteraction E (x, y) s)) a = actor_at s a)
   \<and> (\<forall>m. mapper_at (final (WidgetInteraction E (x, y) s)) m =
            (mapper_at s m)
              \<lparr>PointIdArrayName :=
                 PointIdArrayName (mapper_at (final (WidgetInteraction E (x, y) s)) m),
               CellIdArrayName :=
                 CellIdArrayName (mapper_at (final (WidgetInteraction E (x, y) s)) m)\<rparr>)
   \<and> (\<forall>s'. WidgetInteraction E (x, y) s = Returned () s' \<longrightarrow> mapper_at s' = mapper_at s)"
proof (cases rule: WidgetInteraction_cases [of s E x y])
  case unbound
  then show ?thesis by simp
next
  case (raised ren)
  have fr: "masked_state ren s = s\<lparr>mapper_at := mapper_at (masked_state ren s)\<rparr>"
    by (rule masked_state_frame)
  have fields: "Shape (masked_state ren s) = Shape s"
    "CustomCursor (masked_state ren s) = CustomCursor s"
    "NeedUpdate (masked_state ren s) = NeedUpdate s"
    "Cursor (masked_state ren s) = Cursor s"
    "actor_at (masked_state ren s) = actor_at s"
    "PickPosition (masked_state ren s) = PickPosition s"
    by (subst fr, simp)+
  have whole: "masked_state ren s =
      s\<lparr>PickPosition := PickPosition (masked_state ren s),
        actor_at := actor_at (masked_state ren s),
        mapper_at := mapper_at (masked_state ren s)\<rparr>"
    by (subst fr) (simp add: fields)
  show ?thesis
    using raised(3) fields whole masked_state_names_only [of ren s] by simp
next
  case (no_cursor ren p)
  then show ?thesis by simp
next
  case (moved ren p c)
  then show ?thesis by (simp add: SetPosition_def)
qed

text \<open>
  A pick at a finite position on the sample state: the call returns, the actor at
  address 0 (not the cursor) is unchanged, the cursor keeps its scale, the mapper at
  address 0 has its name again.
\<close>

theorem WidgetInteraction_frame_witness:
  "Cursor (sample_state (sample_collaborators (Some (Fin 1, Fin 2, Fin 3)) NaN unit_bounds)) \<noteq> Some 0
   \<and> WidgetInteraction (sample_collaborators (Some (Fin 1, Fin 2, Fin 3)) NaN unit_bounds)
        (Fin 4, Fin 5)
        (sample_state (sample_collaborators (Some (Fin 1, Fin 2, Fin 3)) NaN unit_bounds)) =
      Returned () (final (WidgetInteraction
        (sample_collaborators (Some (Fin 1, Fin 2, Fin 3)) NaN unit_bounds) (Fin 4, Fin 5)
        (sample_state (sample_collaborators (Some (Fin 1, Fin 2, Fin 3)) NaN unit_bounds))))
   \<and> actor_at (final (WidgetInteraction
        (sample_collaborators (Some (Fin 1, Fin 2, Fin 3)) NaN unit_bounds) (Fin 4, Fin 5)
        (sample_state (sample_collaborators (Some (Fin 1, Fin 2, Fin 3)) NaN unit_bounds)))) 0 =
      actor_at (sample_state (sample_collaborators (Some (Fin 1, Fin 2, Fin 3)) NaN unit_bounds)) 0
   \<and> Scale (actor_at (final (WidgetInteraction
        (sample_collaborators (Some (Fin 1, Fin 2, Fin 3)) NaN unit_bounds) (Fin 4, Fin 5)
        (sample_state (sample_collaborators (Some (Fin 1, Fin 2, Fin 3)) NaN unit_bounds)))) 1) =
      (Fin 1, Fin 1, Fin 1)
   \<and> PointIdArrayName (mapper_at (final (WidgetInteraction
        (sample_collaborators (Some (Fin 1, Fin 2, Fin 3)) NaN unit_bounds) (Fin 4, Fin 5)
        (sample_state (sample_collaborators (Some (Fin 1, Fin 2, Fin 3)) NaN unit_bounds)))) 0) =
      Some ''vtkOriginalPointIds''
   \<and> Shape (final (WidgetInteraction
        (sample_collaborators (Some (Fin 1, Fin 2, Fin 3)) NaN unit_bounds) (Fin 4, Fin 5)
        (sample_state (sample_collaborators (Some (Fin 1, Fin 2, Fin 3)) NaN unit_bounds)))) = 0"
proof -
  let ?E = "sample_collaborators (Some (Fin 1, Fin 2, Fin 3)) NaN unit_bounds"
  let ?s = "sample_state ?E"
  let ?t = "final (WidgetInteraction ?E (Fin 4, Fin 5) ?s)"
  have before: "Cursor ?s \<noteq> Some 0" "Scale (actor_at ?s 1) = (Fin 1, Fin 1, Fin 1)"
    "PointIdArrayName (mapper_at ?s 0) = Some ''vtkOriginalPointIds''" "Shape ?s = 0"
    by (simp_all add: sample_defs)
  have "Renderer ?s = Some sample_renderer" "Cursor ?s = Some 1"
    "Pick ?E (masked_state sample_renderer ?s) (Fin 4) (Fin 5) (Fin 0) sample_renderer =
       Some (Fin 1, Fin 2, Fin 3)"
    by (simp_all add: sample_defs)
  then have run: "WidgetInteraction ?E (Fin 4, Fin 5) ?s = Returned () ?t"
    by (simp add: WidgetInteraction_returned)
  from WidgetInteraction_frame [of ?E "Fin 4" "Fin 5" ?s] before(1) run
  have "actor_at ?t 0 = actor_at ?s 0" and "Scale (actor_at ?t 1) = Scale (actor_at ?s 1)"
    and "mapper_at ?t = mapper_at ?s" and "Shape ?t = Shape ?s"
    by blast+
  with before run show ?thesis by simp
qed

text \<open>
  Claim C10 as stated fails for a pick that raises: the clearing of the names is then not
  undone.  On the sample state, which a representation reaches once the renderer is
  bound, the mapper at address 0 is left without its two names.
\<close>

theorem WidgetInteraction_raised_pick_keeps_mask:
  "reachable (sample_collaborators None (Fin 15) unit_bounds)
     (sample_state (sample_collaborators None (Fin 15) unit_bounds))
   \<and> Renderer (sample_state (sample_collaborators None (Fin 15) unit_bounds)) =
       Some sample_renderer
   \<and> mapper_at (final (WidgetInteraction (sample_collaborators None (Fin 15) unit_bounds)
        (Fin 4, Fin 5) (sample_state (sample_collaborators None (Fin 15) unit_bounds)))) 0
     = plain_mapper
   \<and> mapper_at (sample_state (sample_collaborators None (Fin 15) unit_bounds)) 0
     = plain_mapper\<lparr>PointIdArrayName := Some ''vtkOriginalPointIds'',
                     CellIdArrayName := Some ''vtkOriginalCellIds''\<rparr>
   \<and> mapper_at (final (WidgetInteraction (sample_collaborators None (Fin 15) unit_bounds)
        (Fin 4, Fin 5) (sample_state (sample_collaborators None (Fin 15) unit_bounds)))) 0
     \<noteq> mapper_at (sample_state (sample_collaborators None (Fin 15) unit_bounds)) 0"
proof -
  let ?E = "sample_collaborators None (Fin 15) unit_bounds"
  let ?s = "sample_state ?E"
  have "reachable ?E (vtk3DCursorRepresentation ?E sample_scene)"
    by (rule reachable.constructed)
  then have r: "reachable ?E ?s"
    by (rule reachable.elsewhere) (simp_all add: sample_state_def)
  have ren: "Renderer ?s = Some sample_renderer" by (simp add: sample_state_def)
  have pick: "Pick ?E (masked_state sample_renderer ?s) (Fin 4) (Fin 5) (Fin 0) sample_renderer
              = None"
    by (simp add: sample_collaborators_def)
  have run: "WidgetInteraction ?E (Fin 4, Fin 5) ?s =
             Raised PickFault (masked_state sample_renderer ?s)"
    by (rule WidgetInteraction_raised [OF ren pick])
  have before: "mapper_at ?s 0 =
      plain_mapper\<lparr>PointIdArrayName := Some ''vtkOriginalPointIds'',
                    CellIdArrayName := Some ''vtkOriginalCellIds''\<rparr>"
    by (simp add: sample_defs)
  have after: "mapper_at (masked_state sample_renderer ?s) 0 = plain_mapper"
    by (simp add: masked_state_def mask_actor_def SafeDownCast_def SetPointIdArrayName_def
          SetCellIdArrayName_def sample_defs)
  have "plain_mapper \<noteq> plain_mapper\<lparr>PointIdArrayName := Some ''vtkOriginalPointIds'',
                    CellIdArrayName := Some ''vtkOriginalCellIds''\<rparr>"
    by (simp add: plain_mapper_def)
  with r ren run before after show ?thesis by simp
qed

subsection \<open>Rescaling: what a call of BuildRepresentation leaves\<close>

text \<open>
  What a second call in a row computes depends on how \<open>GetBounds\<close> answers to the scale
  the first call has set.  A call that finds the width of the bounds equal to twice the
  target size leaves every actor as it is (\<open>BuildRepresentation_matching_bounds\<close>); with
  bounds that do not follow the scale, every call multiplies the scale again.
\<close>

lemma BuildRepresentation_null:
  "Cursor (UpdateCursor E s) = None \<Longrightarrow>
   BuildRepresentation E s = Raised NullPointer (UpdateCursor E s)"
  by (simp add: BuildRepresentation_def Let_def)

lemma BuildRepresentation_flat:
  assumes "u = UpdateCursor E s" and "Cursor u = Some c"
    and "is_zero (dsub (bounds1 (GetBounds E u c)) (bounds0 (GetBounds E u c)))"
  shows "BuildRepresentation E s = Returned () u"
  using assms by (simp add: BuildRepresentation_def Let_def)

lemma BuildRepresentation_nan:
  assumes "u = UpdateCursor E s" and "Cursor u = Some c"
    and "w = dsub (bounds1 (GetBounds E u c)) (bounds0 (GetBounds E u c))"
    and "t = SizeHandlesInPixels E u (Fin 1) (Position (actor_at u c))"
    and "\<not> is_zero w" and "isnan (ddiv (dmul (Fin 2) t) w)"
  shows "BuildRepresentation E s =
         Returned () (u\<lparr>diagnostics := diagnostics u @ [Division (dmul (Fin 2) t) w]\<rparr>)"
  using assms by (simp add: BuildRepresentation_def Let_def)

lemma BuildRepresentation_rescaled:
  assumes "u = UpdateCursor E s" and "Cursor u = Some c"
    and "w = dsub (bounds1 (GetBounds E u c)) (bounds0 (GetBounds E u c))"
    and "t = SizeHandlesInPixels E u (Fin 1) (Position (actor_at u c))"
    and "\<not> is_zero w" and "\<not> isnan (ddiv (dmul (Fin 2) t) w)"
  shows "BuildRepresentation E s =
         Returned ()
           (SetScale c (MultiplyScalar (Scale (actor_at u c)) (ddiv (dmul (Fin 2) t) w))
              (u\<lparr>diagnostics := diagnostics u @ [Division (dmul (Fin 2) t) w]\<rparr>))"
  using assms by (simp add: BuildRepresentation_def Let_def)

text \<open>The ways through \<open>BuildRepresentation\<close>.\<close>

lemma BuildRepresentation_cases:
  obtains
    (null) "Cursor (UpdateCursor E s) = None"
      "BuildRepresentation E s = Raised NullPointer (UpdateCursor E s)"
  | (flat) c where "Cursor (UpdateCursor E s) = Some c"
      "is_zero (dsub (bounds1 (GetBounds E (UpdateCursor E s) c))
                     (bounds0 (GetBounds E (UpdateCursor E s) c)))"
      "BuildRepresentation E s = Returned () (UpdateCursor E s)"
  | (nan) c w t where "Cursor (UpdateCursor E s) = Some c"
      "w = dsub (bounds1 (GetBounds E (UpdateCursor E s) c))
                (bounds0 (GetBounds E (UpdateCursor E s) c))"
      "t = SizeHandlesInPixels E (UpdateCursor E s) (Fin 1)
             (Position (actor_at (UpdateCursor E s) c))"
      "\<not> is_zero w" "isnan (ddiv (dmul (Fin 2) t) w)"
      "BuildRepresentation E s =
         Returned () ((UpdateCursor E s)
           \<lparr>diagnostics := diagnostics (UpdateCursor E s) @ [Division (dmul (Fin 2) t) w]\<rparr>)"
  | (rescaled) c w t where "Cursor (UpdateCursor E s) = Some c"
      "w = dsub (bounds1 (GetBounds E (UpdateCursor E s) c))
                (bounds0 (GetBounds E (UpdateCursor E s) c))"
      "t = SizeHandlesInPixels E (UpdateCursor E s) (Fin 1)
             (Position (actor_at (UpdateCursor E s) c))"
      "\<not> is_zero w" "\<not> isnan (ddiv (dmul (Fin 2) t) w)"
      "BuildRepresentation E s =
         Returned ()
           (SetScale c
              (MultiplyScalar (Scale (actor_at (UpdateCursor E s) c)) (ddiv (dmul (Fin 2) t) w))
              ((UpdateCursor E s)
                 \<lparr>diagnostics := diagnostics (UpdateCursor E s) @ [Division (dmul (Fin 2) t) w]\<rparr>))"
proof (cases "Cursor (UpdateCursor E s)")
  case None
  then show ?thesis using null BuildRepresentation_null by blast
next
  case (Some c)
  let ?u = "UpdateCursor E s"
  let ?w = "dsub (bounds1 (GetBounds E ?u c)) (bounds0 (GetBounds E ?u c))"
  let ?t = "SizeHandlesInPixels E ?u (Fin 1) (Position (actor_at ?u c))"
  show ?thesis
  proof (cases "is_zero ?w")
    case True
    then show ?thesis using flat [OF Some] BuildRepresentation_flat [OF refl Some] by blast
  next
    case False
    show ?thesis
    proof (cases "isnan (ddiv (dmul (Fin 2) ?t) ?w)")
      case True
      from BuildRepresentation_nan [OF refl Some refl refl False True]
      show ?thesis using nan [OF Some refl refl False True] by blast
    next
      case notnan: False
      from BuildRepresentation_rescaled [OF refl Some refl refl False notnan]
      show ?thesis using rescaled [OF Some refl refl False notnan] by blast
    qed
  qed
qed

lemma BuildRepresentation_divisions:
  assumes "Division n d \<in> set (diagnostics (final (BuildRepresentation E s)))"
  shows "Division n d \<in> set (diagnostics s) \<or> \<not> is_zero d"
  using assms
  by (cases rule: BuildRepresentation_cases [of E s])
     (auto simp: UpdateCursor_diagnostics SetScale_def)

lemma BuildRepresentation_final_members:
  "Cursor (final (BuildRepresentation E s)) = Cursor (UpdateCursor E s)
   \<and> Shape (final (BuildRepresentation E s)) = Shape s
   \<and> CustomCursor (final (BuildRepresentation E s)) = CustomCursor s
   \<and> \<not> NeedUpdate (final (BuildRepresentation E s))"
  by (cases rule: BuildRepresentation_cases [of E s])
     (auto simp: UpdateCursor_members UpdateCursor_clears SetScale_def)





lemma constructed_clean:
  "\<not> NeedUpdate (vtk3DCursorRepresentation E h)
   \<and> Cursor (vtk3DCursorRepresentation E h) = Some (next_actor h)
   \<and> Shape (vtk3DCursorRepresentation E h) = CROSS_SHAPE
   \<and> CustomCursor (vtk3DCursorRepresentation E h) = None
   \<and> Renderer (vtk3DCursorRepresentation E h) = None
   \<and> HandleSize (vtk3DCursorRepresentation E h) = Fin 15"
  by (simp add: vtk3DCursorRepresentation_def initial_members_def UpdateCursor_def
        CreateCrossCursor_def Let_def shape_defs)

text \<open>
  Claim C4.  When the bounds of the cursor, as it is after \<open>UpdateCursor\<close>, have
  \<open>xmax - xmin == 0\<close>, \<open>BuildRepresentation\<close> returns the state \<open>UpdateCursor\<close> left:
  the scale is unchanged and no division is recorded.  And in every call, each division
  that \<open>BuildRepresentation\<close> records has a divisor that is not zero.
\<close>

theorem BuildRepresentation_zero_width:
  "(u = UpdateCursor E s \<and> Cursor u = Some c
      \<and> is_zero (dsub (bounds1 (GetBounds E u c)) (bounds0 (GetBounds E u c))) \<longrightarrow>
      BuildRepresentation E s = Returned () u
      \<and> diagnostics u = diagnostics s
      \<and> Scale (actor_at (final (BuildRepresentation E s)) c) = Scale (actor_at u c))
   \<and> (\<forall>n d. Division n d \<in> set (diagnostics (final (BuildRepresentation E s))) \<longrightarrow>
              Division n d \<in> set (diagnostics s) \<or> \<not> is_zero d)"
  using BuildRepresentation_flat [of u E s c] BuildRepresentation_divisions [of _ _ E s]
    UpdateCursor_diagnostics [of E s]
  by auto

text \<open>
  Bounds of zero width on the constructed representation: nothing changes, no division.
  With bounds of width 1 and a target size of 15 the division \<open>30 / 1\<close> is executed.
\<close>

theorem BuildRepresentation_zero_width_witness:
  "Cursor (vtk3DCursorRepresentation (sample_collaborators None (Fin 15) flat_bounds) sample_scene)
     = Some 1
   \<and> is_zero (dsub
        (bounds1 (GetBounds (sample_collaborators None (Fin 15) flat_bounds)
           (vtk3DCursorRepresentation (sample_collaborators None (Fin 15) flat_bounds)
              sample_scene) 1))
        (bounds0 (GetBounds (sample_collaborators None (Fin 15) flat_bounds)
           (vtk3DCursorRepresentation (sample_collaborators None (Fin 15) flat_bounds)
              sample_scene) 1)))
   \<and> BuildRepresentation (sample_collaborators None (Fin 15) flat_bounds)
        (vtk3DCursorRepresentation (sample_collaborators None (Fin 15) flat_bounds) sample_scene)
      = Returned ()
          (vtk3DCursorRepresentation (sample_collaborators None (Fin 15) flat_bounds)
             sample_scene)
   \<and> diagnostics (final (BuildRepresentation (sample_collaborators None (Fin 15) flat_bounds)
        (vtk3DCursorRepresentation (sample_collaborators None (Fin 15) flat_bounds)
           sample_scene))) = []
   \<and> Division (Fin 30) (Fin 1) \<in> set (diagnostics (final (BuildRepresentation
        (sample_collaborators None (Fin 15) unit_bounds)
        (vtk3DCursorRepresentation (sample_collaborators None (Fin 15) unit_bounds)
           sample_scene))))
   \<and> \<not> is_zero (Fin 1)"
proof -
  let ?E = "sample_collaborators None (Fin 15) flat_bounds"
  let ?s = "vtk3DCursorRepresentation ?E sample_scene"
  let ?F = "sample_collaborators None (Fin 15) unit_bounds"
  let ?r = "vtk3DCursorRepresentation ?F sample_scene"
  have clean: "?s = UpdateCursor ?E ?s"
    using constructed_clean [of ?E sample_scene] by (simp add: UpdateCursor_clean)
  have cur: "Cursor ?s = Some 1"
    using constructed_clean [of ?E sample_scene] by (simp add: sample_scene_def)
  have flat: "is_zero (dsub (bounds1 (GetBounds ?E ?s 1)) (bounds0 (GetBounds ?E ?s 1)))"
    by (simp add: sample_collaborators_def flat_bounds_def)
  have log: "diagnostics ?s = []" "diagnostics ?r = []"
    by (simp_all add: sample_defs)
  from BuildRepresentation_zero_width [of ?s ?E ?s 1] clean cur flat
  have 1: "BuildRepresentation ?E ?s = Returned () ?s" by blast
  have 2: "Division (Fin 30) (Fin 1) \<in> set (diagnostics (final (BuildRepresentation ?F ?r)))"
    by (simp add: BuildRepresentation_def SetScale_def sample_defs unit_bounds_def)
  from BuildRepresentation_zero_width [of ?r ?F ?r 1] 2 log
  have 3: "\<not> is_zero (Fin 1)" by auto
  from cur flat 1 2 3 log show ?thesis by simp
qed

text \<open>
  Claim C5, as amended.  When the ratio \<open>2 * targetSize / width\<close> is not-a-number,
  \<open>BuildRepresentation\<close> returns and every actor is as \<open>UpdateCursor\<close> left it: the scale
  of the cursor is unchanged.
\<close>

theorem BuildRepresentation_nan_ratio:
  assumes "u = UpdateCursor E s" and "Cursor u = Some c"
    and "isnan (ddiv (dmul (Fin 2) (SizeHandlesInPixels E u (Fin 1) (Position (actor_at u c))))
                     (dsub (bounds1 (GetBounds E u c)) (bounds0 (GetBounds E u c))))"
  shows "(\<exists>s'. BuildRepresentation E s = Returned () s')
       \<and> actor_at (final (BuildRepresentation E s)) = actor_at u
       \<and> Scale (actor_at (final (BuildRepresentation E s)) c) = Scale (actor_at u c)"
  using assms
  by (cases rule: BuildRepresentation_cases [of E s]) auto

text \<open>
  A target size that is not-a-number, as after a pick without intersection, and bounds
  of width 1, on the sample state.
\<close>

theorem BuildRepresentation_nan_ratio_witness:
  "Cursor (sample_state (sample_collaborators None NaN unit_bounds)) = Some 1
   \<and> isnan (ddiv (dmul (Fin 2)
        (SizeHandlesInPixels (sample_collaborators None NaN unit_bounds)
           (sample_state (sample_collaborators None NaN unit_bounds)) (Fin 1)
           (Position (actor_at (sample_state (sample_collaborators None NaN unit_bounds)) 1))))
        (dsub (bounds1 (GetBounds (sample_collaborators None NaN unit_bounds)
                 (sample_state (sample_collaborators None NaN unit_bounds)) 1))
              (bounds0 (GetBounds (sample_collaborators None NaN unit_bounds)
                 (sample_state (sample_collaborators None NaN unit_bounds)) 1))))
   \<and> Scale (actor_at (final (BuildRepresentation (sample_collaborators None NaN unit_bounds)
        (sample_state (sample_collaborators None NaN unit_bounds)))) 1) = (Fin 1, Fin 1, Fin 1)"
proof -
  let ?E = "sample_collaborators None NaN unit_bounds"
  let ?s = "sample_state ?E"
  have clean: "?s = UpdateCursor ?E ?s"
    using constructed_clean [of ?E sample_scene]
    by (simp add: UpdateCursor_clean sample_state_def)
  have cur: "Cursor ?s = Some 1" and scale: "Scale (actor_at ?s 1) = (Fin 1, Fin 1, Fin 1)"
    by (simp_all add: sample_defs)
  have nan: "isnan (ddiv (dmul (Fin 2)
        (SizeHandlesInPixels ?E ?s (Fin 1) (Position (actor_at ?s 1))))
        (dsub (bounds1 (GetBounds ?E ?s 1)) (bounds0 (GetBounds ?E ?s 1))))"
    by (simp add: sample_collaborators_def unit_bounds_def)
  from BuildRepresentation_nan_ratio [OF clean cur nan] cur nan scale
  show ?thesis by simp
qed

text \<open>
  Claim C5 as stated fails: the guard is \<^verbatim>\<open>std::isnan\<close>, and an infinite ratio is not
  finite and not not-a-number.  With an infinite target size and bounds of width 1 the
  ratio is infinite and the scale \<open>(1, 1, 1)\<close> of the cursor becomes infinite.
\<close>

theorem BuildRepresentation_infinite_ratio_rescales:
  "SizeHandlesInPixels (sample_collaborators None PosInf unit_bounds)
     (sample_state (sample_collaborators None PosInf unit_bounds)) (Fin 1)
     (Position (actor_at (sample_state (sample_collaborators None PosInf unit_bounds)) 1)) = PosInf
   \<and> GetBounds (sample_collaborators None PosInf unit_bounds)
       (sample_state (sample_collaborators None PosInf unit_bounds)) 1 =
       (Fin 0, Fin 1, Fin 0, Fin 1, Fin 0, Fin 1)
   \<and> ddiv (dmul (Fin 2) PosInf) (dsub (Fin 1) (Fin 0)) = PosInf
   \<and> \<not> isfinite (ddiv (dmul (Fin 2) PosInf) (dsub (Fin 1) (Fin 0)))
   \<and> Scale (actor_at (sample_state (sample_collaborators None PosInf unit_bounds)) 1) =
       (Fin 1, Fin 1, Fin 1)
   \<and> Scale (actor_at (final (BuildRepresentation (sample_collaborators None PosInf unit_bounds)
        (sample_state (sample_collaborators None PosInf unit_bounds)))) 1) =
       (PosInf, PosInf, PosInf)"
  by (simp add: BuildRepresentation_def SetScale_def sample_defs unit_bounds_def)





subsection \<open>The cursor is never null\<close>

lemma reachable_has_cursor: "reachable E s \<Longrightarrow> Cursor s \<noteq> None"
proof (induction rule: reachable.induct)
  case (constructed h)
  show ?case by (simp add: constructed_clean)
next
  case (shape_set s k)
  then show ?case by (simp add: SetCursorShape_def)
next
  case (custom_set s r)
  then show ?case by (simp add: SetCustomCursor_def Modified_def Let_def)
next
  case (cursor_set s r)
  then show ?case
    by (simp add: SetCursor_def SetCustomCursor_def SetCursorShape_def Modified_def Let_def)
next
  case (interacted s p)
  obtain x y where "p = (x, y)" by (cases p)
  with interacted show ?case using WidgetInteraction_members [of E x y s] by simp
next
  case (built s)
  then show ?case
    using BuildRepresentation_final_members [of E s] UpdateCursor_keeps_cursor [of s E] by simp
next
  case (released s)
  then show ?case by (auto simp: ReleaseGraphicsResources_def)
next
  case (rendered s)
  from rendered have "Cursor (final (BuildRepresentation E s)) \<noteq> None"
    using BuildRepresentation_final_members [of E s] UpdateCursor_keeps_cursor [of s E] by simp
  then show ?case
    by (cases "BuildRepresentation E s") (auto simp: RenderOpaqueGeometry_def)
next
  case (elsewhere s s')
  then show ?case by simp
qed

lemma BuildRepresentation_returns:
  assumes "Cursor s \<noteq> None"
  shows "\<exists>s'. BuildRepresentation E s = Returned () s' \<and> Cursor s' \<noteq> None"
proof -
  from assms have "Cursor (UpdateCursor E s) \<noteq> None" by (rule UpdateCursor_keeps_cursor)
  then show ?thesis
    by (cases rule: BuildRepresentation_cases [of E s]) (auto simp: SetScale_def)
qed

text \<open>
  Claim C9.  In every state a representation can reach from its constructor, and so
  directly after construction, \<open>ReleaseGraphicsResources\<close> returns, leaving the state
  as it is, and \<open>RenderOpaqueGeometry\<close> returns the status of the cursor's render call:
  neither meets a null cursor.
\<close>

theorem release_and_render_safe:
  assumes "reachable E s"
  shows "ReleaseGraphicsResources s = Returned () s
       \<and> (\<exists>c s'. Cursor s' = Some c
             \<and> RenderOpaqueGeometry E s = Returned (ActorRenderOpaqueGeometry E s' c) s')"
proof -
  from assms have cur: "Cursor s \<noteq> None" by (rule reachable_has_cursor)
  then have 1: "ReleaseGraphicsResources s = Returned () s"
    by (auto simp: ReleaseGraphicsResources_def)
  from BuildRepresentation_returns [OF cur, of E]
  obtain s' c where "BuildRepresentation E s = Returned () s'" and "Cursor s' = Some c"
    by auto
  then have "Cursor s' = Some c
     \<and> RenderOpaqueGeometry E s = Returned (ActorRenderOpaqueGeometry E s' c) s'"
    by (simp add: RenderOpaqueGeometry_def)
  with 1 show ?thesis by blast
qed

text \<open>
  Directly after construction in the sample scene, and after the custom shape has been
  chosen without a custom cursor ever given: the cross built by the constructor is
  still there to be rendered.
\<close>

theorem release_and_render_safe_witness:
  "reachable (sample_collaborators None (Fin 15) unit_bounds)
     (vtk3DCursorRepresentation (sample_collaborators None (Fin 15) unit_bounds) sample_scene)
   \<and> ReleaseGraphicsResources
       (vtk3DCursorRepresentation (sample_collaborators None (Fin 15) unit_bounds) sample_scene)
     = Returned ()
       (vtk3DCursorRepresentation (sample_collaborators None (Fin 15) unit_bounds) sample_scene)
   \<and> (\<exists>s'. RenderOpaqueGeometry (sample_collaborators None (Fin 15) unit_bounds)
        (vtk3DCursorRepresentation (sample_collaborators None (Fin 15) unit_bounds) sample_scene)
        = Returned 1 s')
   \<and> reachable (sample_collaborators None (Fin 15) unit_bounds)
       (SetCursorShape CUSTOM_SHAPE
          (vtk3DCursorRepresentation (sample_collaborators None (Fin 15) unit_bounds)
             sample_scene))
   \<and> (\<exists>s'. RenderOpaqueGeometry (sample_collaborators None (Fin 15) unit_bounds)
        (SetCursorShape CUSTOM_SHAPE
           (vtk3DCursorRepresentation (sample_collaborators None (Fin 15) unit_bounds)
              sample_scene))
        = Returned 1 s')"
proof -
  let ?E = "sample_collaborators None (Fin 15) unit_bounds"
  let ?s = "vtk3DCursorRepresentation ?E sample_scene"
  let ?c = "SetCursorShape CUSTOM_SHAPE ?s"
  have r: "reachable ?E ?s" by (rule reachable.constructed)
  then have rc: "reachable ?E ?c" by (rule reachable.shape_set)
  have status: "ActorRenderOpaqueGeometry ?E s' c = 1" for s' c
    by (simp add: sample_collaborators_def)
  from release_and_render_safe [OF r]
  have 1: "ReleaseGraphicsResources ?s = Returned () ?s"
    and 2: "\<exists>c s'. RenderOpaqueGeometry ?E ?s = Returned (ActorRenderOpaqueGeometry ?E s' c) s'"
    by blast+
  from release_and_render_safe [OF rc]
  have 3: "\<exists>c s'. RenderOpaqueGeometry ?E ?c = Returned (ActorRenderOpaqueGeometry ?E s' c) s'"
    by blast
  from 1 2 3 r rc show ?thesis by (simp add: status)
qed

end
